theory Spec2Isabelle
  imports Main "HOL-Library.AList"
begin

section \<open>Results and failures\<close>

text \<open>
  The operations of the stores of atlas-scribe (\<^verbatim>\<open>src/services/storage.js\<close>) return a
  \<^verbatim>\<open>Result\<close>, a value tagged \<^verbatim>\<open>success\<close> or \<^verbatim>\<open>failure\<close>. A JavaScript exception (a rejected
  promise) is kept apart from a failure \<^verbatim>\<open>Result\<close>: an operation yields \<open>Inl\<close> of the
  thrown error, or \<open>Inr\<close> of the \<^verbatim>\<open>Result\<close> it returned.
\<close>

datatype errno = ENOENT | EEXIST | EISDIR | ENOTDIR | ENAMETOOLONG | ERR_INVALID_ARG_VALUE

text \<open>
  The values a JavaScript \<^verbatim>\<open>catch\<close> can receive here: an error of the \<^verbatim>\<open>fs\<close> module, which
  is its \<^verbatim>\<open>code\<close> (of the kernel, or Node's own \<^verbatim>\<open>ERR_INVALID_ARG_VALUE\<close>), an \<^verbatim>\<open>Error\<close> built
  from a message, and the \<^verbatim>\<open>SyntaxError\<close> of \<^verbatim>\<open>JSON.parse\<close>.
\<close>

datatype error = SystemError errno | Error string | SyntaxError string

datatype ('a, 'e) result = Success 'a | Failure 'e

text \<open>
  The failure taxonomy: \<^verbatim>\<open>{ type: 'not-found' }\<close>, \<^verbatim>\<open>{ type: 'internal-failure', error }\<close>
  and the \<^verbatim>\<open>{ type: 'cast-failure', message }\<close> of a model.
\<close>

datatype failure = NotFound | InternalFailure error | CastFailure string

text \<open>
  Modelled from the spec: \<^verbatim>\<open>succeed\<close>, \<^verbatim>\<open>fail\<close> and \<^verbatim>\<open>handleResult\<close> of \<^verbatim>\<open>lib/result\<close>, which
  is not among the sources. The spec (4.1): \<^verbatim>\<open>succeed(value)\<close> constructs a success,
  \<^verbatim>\<open>fail(failure)\<close> constructs a failure, and \<^verbatim>\<open>handleResult(result, onSuccess, onFailure)\<close>
  dispatches to the matching handler and returns its output.
\<close>

definition succeed :: "'a \<Rightarrow> ('a, 'e) result" where
  "succeed v = Success v"

text \<open>Modelled from the spec: \<^verbatim>\<open>fail\<close> of \<^verbatim>\<open>lib/result\<close> constructs a failure (4.1).\<close>

definition fail :: "'e \<Rightarrow> ('a, 'e) result" where
  "fail f = Failure f"

text \<open>
  Modelled from the spec: \<^verbatim>\<open>handleResult\<close> of \<^verbatim>\<open>lib/result\<close> dispatches to the matching
  handler and returns its output (4.1).
\<close>

definition handleResult :: "('a, 'e) result \<Rightarrow> ('a \<Rightarrow> 'b) \<Rightarrow> ('e \<Rightarrow> 'b) \<Rightarrow> 'b" where
  "handleResult r onSuccess onFailure =
     (case r of Success v \<Rightarrow> onSuccess v | Failure f \<Rightarrow> onFailure f)"

section \<open>The MapStore contract\<close>

text \<open>
  \<^verbatim>\<open>STDMapStore<Key, Value>\<close> is an object of four asynchronous operations. Each one is a
  function of the state \<open>'s\<close> of whatever backs the store, and returns its outcome with
  the state it leaves behind. The calls of one caller run one after the other; no other
  caller is modelled. The fields are the operations \<^verbatim>\<open>list\<close>, \<^verbatim>\<open>read\<close>, \<^verbatim>\<open>write\<close> and
  \<^verbatim>\<open>destroy\<close>.
\<close>

type_synonym 'a outcome = "error + ('a, failure) result"

record ('s, 'k, 'v) store =
  store_list :: "'s \<Rightarrow> 'k list outcome \<times> 's"
  store_read :: "'k \<Rightarrow> 's \<Rightarrow> 'v outcome \<times> 's"
  store_write :: "'k \<Rightarrow> 'v \<Rightarrow> 's \<Rightarrow> unit outcome \<times> 's"
  store_destroy :: "'k \<Rightarrow> 's \<Rightarrow> unit outcome \<times> 's"

section \<open>The memory store\<close>

text \<open>
  Modelled from the spec: \<^verbatim>\<open>createMap2\<close> of \<^verbatim>\<open>lib/map2\<close>, which is not among the sources.
  The spec (4.3): an ordinary mutable key-to-value mapping held in process memory; \<^verbatim>\<open>list\<close>
  returns a snapshot of the current keys, \<^verbatim>\<open>read\<close> and \<^verbatim>\<open>destroy\<close> of a missing key fail,
  \<^verbatim>\<open>write\<close> creates or overwrites and cannot fail. The mapping is an association list in
  insertion order, one entry for each key; \<^verbatim>\<open>get\<close>, \<^verbatim>\<open>set\<close> (here \<open>set_entry\<close>) and
  \<^verbatim>\<open>delete\<close> return a \<^verbatim>\<open>Result\<close>, as their callers expect. The failure of \<^verbatim>\<open>set\<close> has the
  type \<^verbatim>\<open>empty\<close> in the source: there is none, and its type is left open.
\<close>

type_synonym ('k, 'v) map2 = "('k \<times> 'v) list"

definition createMap2 :: "('k, 'v) map2" where
  "createMap2 = []"

text \<open>Modelled from the spec: \<^verbatim>\<open>entries\<close> of the mapping, the snapshot that \<^verbatim>\<open>list\<close> reads (4.3).\<close>

definition entries :: "('k, 'v) map2 \<Rightarrow> ('k \<times> 'v) list" where
  "entries m = m"

text \<open>Modelled from the spec: \<^verbatim>\<open>get\<close> of the mapping fails for a missing key (4.3).\<close>

definition get :: "('k, 'v) map2 \<Rightarrow> 'k \<Rightarrow> ('v, unit) result" where
  "get m k = (case map_of m k of Some v \<Rightarrow> Success v | None \<Rightarrow> Failure ())"

text \<open>Modelled from the spec: \<^verbatim>\<open>set\<close> of the mapping creates or overwrites the entry (4.3).\<close>

definition set_entry :: "('k, 'v) map2 \<Rightarrow> 'k \<Rightarrow> 'v \<Rightarrow> (unit, 'e) result \<times> ('k, 'v) map2" where
  "set_entry m k v = (Success (), AList.update k v m)"

text \<open>
  Modelled from the spec: \<^verbatim>\<open>delete\<close> of the mapping removes the entry and fails for a
  missing key (4.3).
\<close>

definition delete :: "('k, 'v) map2 \<Rightarrow> 'k \<Rightarrow> (unit, unit) result \<times> ('k, 'v) map2" where
  "delete m k =
     (case map_of m k of
        Some v \<Rightarrow> (Success (), AList.delete k m)
      | None \<Rightarrow> (Failure (), m))"

text \<open>
  \<^verbatim>\<open>createMemoryMapStore\<close>: the four closures over \<^verbatim>\<open>internalMap\<close>, whose value is the state.
  A new store starts from \<^const>\<open>createMap2\<close>.
\<close>

definition createMemoryMapStore :: "(('k, 'v) map2, 'k, 'v) store" where
  "createMemoryMapStore =
     \<lparr> store_list = (\<lambda>internalMap.
         (Inr (succeed (map (\<lambda>(key, value). key) (entries internalMap))), internalMap)),
       store_read = (\<lambda>key internalMap.
         (Inr (handleResult (get internalMap key)
            (\<lambda>value. succeed value)
            (\<lambda>failure. fail NotFound)), internalMap)),
       store_write = (\<lambda>key value internalMap.
         (case set_entry internalMap key value of (r, internalMap') \<Rightarrow>
            (Inr (handleResult r (\<lambda>u. succeed ()) (\<lambda>empty. empty)), internalMap'))),
       store_destroy = (\<lambda>key internalMap.
         (case delete internalMap key of (r, internalMap') \<Rightarrow>
            (Inr (handleResult r
               (\<lambda>value. succeed ())
               (\<lambda>failure. fail NotFound)), internalMap'))) \<rparr>"

section \<open>JavaScript strings written as UTF-8\<close>

text \<open>
  The keys, namespaces, extensions, storage types and messages of this theory are
  strings of characters below U+0100: what the code does with them is to compare, cut
  and concatenate them. The value of a store of strings is a JavaScript string in full,
  a list of 16-bit code units (each given by its high and its low byte), because a file
  does not keep every such string: \<^verbatim>\<open>writeFile(filename, value, 'utf-8')\<close> writes a code unit
  that is a surrogate without its partner as U+FFFD, and \<^verbatim>\<open>readFile(filename, 'utf-8')\<close>
  reads that back.
\<close>

datatype unit16 = Unit16 char char

type_synonym jsstring = "unit16 list"

text \<open>The JavaScript string of a string of characters below U+0100.\<close>

definition js :: "string \<Rightarrow> jsstring" where
  "js s = map (Unit16 (CHR 0x00)) s"

definition isHighSurrogate :: "unit16 \<Rightarrow> bool" where
  "isHighSurrogate u =
     (case u of Unit16 h l \<Rightarrow> (0xD8 :: nat) \<le> of_char h \<and> of_char h \<le> (0xDB :: nat))"

definition isLowSurrogate :: "unit16 \<Rightarrow> bool" where
  "isLowSurrogate u =
     (case u of Unit16 h l \<Rightarrow> (0xDC :: nat) \<le> of_char h \<and> of_char h \<le> (0xDF :: nat))"

definition replacement :: unit16 where
  "replacement = Unit16 (CHR 0xFF) (CHR 0xFD)"

text \<open>
  What a string is after it was encoded as UTF-8 and decoded again: a high surrogate
  followed by a low one is a character and stays, every other surrogate becomes U+FFFD
  (\<^verbatim>\<open>String.prototype.toWellFormed\<close> names the same string).
\<close>

fun toWellFormed :: "jsstring \<Rightarrow> jsstring" where
  "toWellFormed [] = []"
| "toWellFormed [u] = (if isHighSurrogate u \<or> isLowSurrogate u then [replacement] else [u])"
| "toWellFormed (u # v # rest) =
     (if isHighSurrogate u \<and> isLowSurrogate v then u # v # toWellFormed rest
      else if isHighSurrogate u \<or> isLowSurrogate u then replacement # toWellFormed (v # rest)
      else u # toWellFormed (v # rest))"

text \<open>A string without a lone surrogate (\<^verbatim>\<open>String.prototype.isWellFormed\<close>).\<close>

fun isWellFormed :: "jsstring \<Rightarrow> bool" where
  "isWellFormed [] = True"
| "isWellFormed [u] = (\<not> isHighSurrogate u \<and> \<not> isLowSurrogate u)"
| "isWellFormed (u # v # rest) =
     (if isHighSurrogate u \<and> isLowSurrogate v then isWellFormed rest
      else \<not> isHighSurrogate u \<and> \<not> isLowSurrogate u \<and> isWellFormed (v # rest))"

section \<open>The file system\<close>

text \<open>
  What the directory store needs of Node's \<^verbatim>\<open>fs\<close> and \<^verbatim>\<open>path\<close> modules, on Linux, without
  symbolic links and permissions and with room on the disk. A location is the list of
  the names from the root down, and a flag for a trailing separator, which makes the
  kernel insist on a directory. A file system lists each location it holds once, with
  its node; the root is a directory and is not listed. A file holds its content as a
  read with the encoding \<^verbatim>\<open>utf-8\<close> gives it.
\<close>

datatype node = File jsstring | Dir

record path =
  segments :: "string list"
  trailing :: bool

type_synonym filesystem = "(string list \<times> node) list"

text \<open>
  The limits of the kernel: a name of at most \<^verbatim>\<open>NAME_MAX\<close> bytes, a path shorter than
  \<^verbatim>\<open>PATH_MAX\<close> bytes, both counted in UTF-8, where a character below U+0080 is one byte
  and one below U+0100 is two.
\<close>

definition NAME_MAX :: nat where
  "NAME_MAX = 255"

definition PATH_MAX :: nat where
  "PATH_MAX = 4096"

definition utf8_length :: "string \<Rightarrow> nat" where
  "utf8_length name = sum_list (map (\<lambda>c. if of_char c < (0x80 :: nat) then 1 else 2) name)"

definition path_length :: "path \<Rightarrow> nat" where
  "path_length p =
     (if segments p = [] then 1
      else sum_list (map (\<lambda>name. 1 + utf8_length name) (segments p))
           + (if trailing p then 1 else 0))"

text \<open>
  What every call of \<^verbatim>\<open>fs\<close> does with its path before it looks at the disk: Node refuses a
  path that holds a null byte (a \<^verbatim>\<open>TypeError\<close> whose \<^verbatim>\<open>code\<close> is \<^verbatim>\<open>ERR_INVALID_ARG_VALUE\<close>), the
  kernel one that is too long.
\<close>

definition validate :: "path \<Rightarrow> errno option" where
  "validate p =
     (if list_ex (\<lambda>name. CHR 0x00 \<in> set name) (segments p) then Some ERR_INVALID_ARG_VALUE
      else if PATH_MAX \<le> path_length p then Some ENAMETOOLONG
      else None)"

definition node_at :: "filesystem \<Rightarrow> string list \<Rightarrow> node option" where
  "node_at fs p = (if p = [] then Some Dir else map_of fs p)"

text \<open>
  Walking down from \<open>pre\<close> through the names \<open>rest\<close>: a missing directory on the way is
  \<^verbatim>\<open>ENOENT\<close>, a file on the way is \<^verbatim>\<open>ENOTDIR\<close>, a name that is too long \<^verbatim>\<open>ENAMETOOLONG\<close>; the
  last name may be missing.
\<close>

fun walk :: "filesystem \<Rightarrow> string list \<Rightarrow> string list \<Rightarrow> errno + node option" where
  "walk fs pre [] = Inr (node_at fs pre)"
| "walk fs pre (c # cs) =
     (case node_at fs pre of
        None \<Rightarrow> Inl ENOENT
      | Some (File x) \<Rightarrow> Inl ENOTDIR
      | Some Dir \<Rightarrow>
          (if NAME_MAX < utf8_length c then Inl ENAMETOOLONG else walk fs (pre @ [c]) cs))"

definition resolve :: "filesystem \<Rightarrow> path \<Rightarrow> errno + node option" where
  "resolve fs p =
     (case validate p of
        Some e \<Rightarrow> Inl e
      | None \<Rightarrow>
          (case walk fs [] (segments p) of
             Inl e \<Rightarrow> Inl e
           | Inr None \<Rightarrow> Inr None
           | Inr (Some Dir) \<Rightarrow> Inr (Some Dir)
           | Inr (Some (File x)) \<Rightarrow>
               (if trailing p then Inl ENOTDIR else Inr (Some (File x)))))"

definition stat :: "filesystem \<Rightarrow> path \<Rightarrow> errno + node" where
  "stat fs p =
     (case resolve fs p of
        Inl e \<Rightarrow> Inl e
      | Inr None \<Rightarrow> Inl ENOENT
      | Inr (Some n) \<Rightarrow> Inr n)"

definition isDirectory :: "node \<Rightarrow> bool" where
  "isDirectory n = (case n of Dir \<Rightarrow> True | File x \<Rightarrow> False)"

text \<open>\<^verbatim>\<open>mkdir(path, { recursive: true })\<close>: every missing directory on the way is created.\<close>

fun mkdir_from :: "filesystem \<Rightarrow> string list \<Rightarrow> string list \<Rightarrow> errno + filesystem" where
  "mkdir_from fs pre [] = Inr fs"
| "mkdir_from fs pre (c # cs) =
     (if NAME_MAX < utf8_length c then Inl ENAMETOOLONG
      else case map_of fs (pre @ [c]) of
        None \<Rightarrow> mkdir_from (fs @ [(pre @ [c], Dir)]) (pre @ [c]) cs
      | Some Dir \<Rightarrow> mkdir_from fs (pre @ [c]) cs
      | Some (File x) \<Rightarrow> Inl (if cs = [] then EEXIST else ENOTDIR))"

definition mkdir :: "filesystem \<Rightarrow> path \<Rightarrow> errno + filesystem" where
  "mkdir fs p =
     (case validate p of
        Some e \<Rightarrow> Inl e
      | None \<Rightarrow> mkdir_from fs [] (segments p))"

definition readdir :: "filesystem \<Rightarrow> path \<Rightarrow> errno + string list" where
  "readdir fs p =
     (case resolve fs p of
        Inl e \<Rightarrow> Inl e
      | Inr None \<Rightarrow> Inl ENOENT
      | Inr (Some (File x)) \<Rightarrow> Inl ENOTDIR
      | Inr (Some Dir) \<Rightarrow>
          Inr (map last (filter (\<lambda>q. q \<noteq> [] \<and> butlast q = segments p) (map fst fs))))"

definition readFile :: "filesystem \<Rightarrow> path \<Rightarrow> errno + jsstring" where
  "readFile fs p =
     (case resolve fs p of
        Inl e \<Rightarrow> Inl e
      | Inr None \<Rightarrow> Inl ENOENT
      | Inr (Some Dir) \<Rightarrow> Inl EISDIR
      | Inr (Some (File x)) \<Rightarrow> Inr x)"

text \<open>
  \<^verbatim>\<open>writeFile\<close> opens with the flag \<^verbatim>\<open>w\<close>: the file is created or truncated, and holds the
  value as UTF-8 keeps it. The kernel walks to the directory of the last name; there, a
  trailing separator is \<^verbatim>\<open>EISDIR\<close> whatever the last name is, and so is the root.
\<close>

definition writeFile :: "filesystem \<Rightarrow> path \<Rightarrow> jsstring \<Rightarrow> errno + filesystem" where
  "writeFile fs p v =
     (case validate p of
        Some e \<Rightarrow> Inl e
      | None \<Rightarrow>
          (if segments p = [] then Inl EISDIR
           else case walk fs [] (butlast (segments p)) of
             Inl e \<Rightarrow> Inl e
           | Inr None \<Rightarrow> Inl ENOENT
           | Inr (Some (File x)) \<Rightarrow> Inl ENOTDIR
           | Inr (Some Dir) \<Rightarrow>
               (if trailing p then Inl EISDIR
                else if NAME_MAX < utf8_length (last (segments p)) then Inl ENAMETOOLONG
                else case map_of fs (segments p) of
                  Some Dir \<Rightarrow> Inl EISDIR
                | Some (File x) \<Rightarrow>
                    Inr (AList.update (segments p) (File (toWellFormed v)) fs)
                | None \<Rightarrow>
                    Inr (AList.update (segments p) (File (toWellFormed v)) fs))))"

text \<open>
  \<^verbatim>\<open>unlink\<close> removes a file. Of a directory it fails: with \<^verbatim>\<open>EISDIR\<close> on Linux, as here
  (\<^verbatim>\<open>EPERM\<close> elsewhere; the store treats both alike, as neither \<^verbatim>\<open>ENOENT\<close> nor
  \<^verbatim>\<open>EEXIST\<close>).
\<close>

definition unlink :: "filesystem \<Rightarrow> path \<Rightarrow> errno + filesystem" where
  "unlink fs p =
     (case resolve fs p of
        Inl e \<Rightarrow> Inl e
      | Inr None \<Rightarrow> Inl ENOENT
      | Inr (Some Dir) \<Rightarrow> Inl EISDIR
      | Inr (Some (File x)) \<Rightarrow> Inr (AList.delete (segments p) fs))"

text \<open>
  \<^verbatim>\<open>path.join(path, key)\<close>: the key is cut at every separator and the pieces are
  normalised against the directory: an empty piece and \<^verbatim>\<open>.\<close> are dropped, \<^verbatim>\<open>..\<close> steps
  up (the root is its own parent). An empty key leaves the directory as it is.
\<close>

fun split_sep :: "string \<Rightarrow> string \<Rightarrow> string list" where
  "split_sep cur [] = [cur]"
| "split_sep cur (c # cs) =
     (if c = CHR ''/'' then cur # split_sep [] cs else split_sep (cur @ [c]) cs)"

definition normalize_step :: "string list \<Rightarrow> string \<Rightarrow> string list" where
  "normalize_step stack seg =
     (if seg = [] \<or> seg = ''.'' then stack
      else if seg = ''..'' then butlast stack
      else stack @ [seg])"

definition join :: "path \<Rightarrow> string \<Rightarrow> path" where
  "join p key =
     \<lparr> segments = foldl normalize_step (segments p) (split_sep [] key),
       trailing = (if key = [] then trailing p else last key = CHR ''/'') \<rparr>"

section \<open>The directory store\<close>

definition directoryExists :: "filesystem \<Rightarrow> path \<Rightarrow> error + bool" where
  "directoryExists fs p =
     (case stat fs p of
        Inr n \<Rightarrow> Inr (isDirectory n)
      | Inl e \<Rightarrow> (if e = EEXIST \<or> e = ENOENT then Inr False else Inl (SystemError e)))"

text \<open>
  The four closures of \<^verbatim>\<open>createDirectoryMapStore\<close> over \<^verbatim>\<open>path\<close>. Each \<^verbatim>\<open>try\<close>/\<^verbatim>\<open>catch\<close>
  is a case on what the \<^verbatim>\<open>fs\<close> call gave.
\<close>

definition directory_list :: "path \<Rightarrow> filesystem \<Rightarrow> string list outcome \<times> filesystem" where
  "directory_list p fs =
     (case readdir fs p of
        Inr names \<Rightarrow> (Inr (succeed names), fs)
      | Inl e \<Rightarrow> (Inr (fail (InternalFailure (SystemError e))), fs))"

definition directory_read :: "path \<Rightarrow> string \<Rightarrow> filesystem \<Rightarrow> jsstring outcome \<times> filesystem" where
  "directory_read p key fs =
     (let filename = join p key in
      case readFile fs filename of
        Inr content \<Rightarrow> (Inr (succeed content), fs)
      | Inl e \<Rightarrow>
          (if e = EEXIST \<or> e = ENOENT then (Inr (fail NotFound), fs)
           else (Inr (fail (InternalFailure (SystemError e))), fs)))"

definition directory_write :: "path \<Rightarrow> string \<Rightarrow> jsstring \<Rightarrow> filesystem \<Rightarrow> unit outcome \<times> filesystem" where
  "directory_write p key v fs =
     (let filename = join p key in
      case writeFile fs filename v of
        Inr fs' \<Rightarrow> (Inr (succeed ()), fs')
      | Inl e \<Rightarrow> (Inr (fail (InternalFailure (SystemError e))), fs))"

text \<open>\<^verbatim>\<open>destroy\<close> computes \<^verbatim>\<open>filename\<close> and then calls \<^verbatim>\<open>unlink(path)\<close>, on the directory.\<close>

definition directory_destroy :: "path \<Rightarrow> string \<Rightarrow> filesystem \<Rightarrow> unit outcome \<times> filesystem" where
  "directory_destroy p key fs =
     (let filename = join p key in
      case unlink fs p of
        Inr fs' \<Rightarrow> (Inr (succeed ()), fs')
      | Inl e \<Rightarrow>
          (if e = EEXIST \<or> e = ENOENT then (Inr (fail NotFound), fs)
           else (Inr (fail (InternalFailure (SystemError e))), fs)))"

text \<open>
  \<^verbatim>\<open>createDirectoryMapStore(path)\<close>: the directory is made when \<^verbatim>\<open>directoryExists\<close> says
  it is not there; an error of \<^verbatim>\<open>stat\<close> or \<^verbatim>\<open>mkdir\<close> is thrown to the caller.
\<close>

definition createDirectoryMapStore ::
  "path \<Rightarrow> filesystem \<Rightarrow> (error + (filesystem, string, jsstring) store) \<times> filesystem" where
  "createDirectoryMapStore p fs =
     (let s = \<lparr> store_list = directory_list p, store_read = directory_read p,
                store_write = directory_write p, store_destroy = directory_destroy p \<rparr> in
      case directoryExists fs p of
        Inl ex \<Rightarrow> (Inl ex, fs)
      | Inr True \<Rightarrow> (Inr s, fs)
      | Inr False \<Rightarrow>
          (case mkdir fs p of
             Inl e \<Rightarrow> (Inl (SystemError e), fs)
           | Inr fs' \<Rightarrow> (Inr s, fs')))"

section \<open>The JSON-modelled store\<close>

text \<open>
  Modelled from the spec: \<^verbatim>\<open>chain\<close> of the package \<^verbatim>\<open>@lukekaalim/result\<close>, which is not among
  the sources. The spec (4.1): \<^verbatim>\<open>chain(result).then(fn).catch(fn).result()\<close> threads a
  success value through a sequence of transformations, short-circuiting to the first
  failure encountered, and lets a later stage convert one failure kind into another.
  Nothing there catches what a callback throws: the exception leaves the whole
  expression, which is \<open>Inl\<close> through every later stage.
\<close>

definition chain :: "('a, 'e) result \<Rightarrow> error + ('a, 'e) result" where
  "chain r = Inr r"

text \<open>
  Modelled from the spec: \<^verbatim>\<open>then\<close> of a chain hands a success value to the next
  transformation and passes a failure by (4.1).
\<close>

definition chain_then ::
  "error + ('a, 'e) result \<Rightarrow> ('a \<Rightarrow> error + ('b, 'e) result) \<Rightarrow> error + ('b, 'e) result" where
  "chain_then c fn =
     (case c of
        Inl ex \<Rightarrow> Inl ex
      | Inr (Success v) \<Rightarrow> fn v
      | Inr (Failure f) \<Rightarrow> Inr (Failure f))"

text \<open>
  Modelled from the spec: \<^verbatim>\<open>catch\<close> of a chain hands a failure to a stage that may turn it
  into another, and passes a success by (4.1).
\<close>

definition chain_catch ::
  "error + ('a, 'e) result \<Rightarrow> ('e \<Rightarrow> error + ('a, 'f) result) \<Rightarrow> error + ('a, 'f) result" where
  "chain_catch c fn =
     (case c of
        Inl ex \<Rightarrow> Inl ex
      | Inr (Success v) \<Rightarrow> Inr (Success v)
      | Inr (Failure f) \<Rightarrow> fn f)"

text \<open>Modelled from the spec: \<^verbatim>\<open>result\<close> of a chain gives the \<^verbatim>\<open>Result\<close> it has reached (4.1).\<close>

definition chain_result :: "error + ('a, 'e) result \<Rightarrow> error + ('a, 'e) result" where
  "chain_result c = c"

text \<open>
  A \<^verbatim>\<open>Model<T>\<close> of \<^verbatim>\<open>@lukekaalim/model\<close> is its function \<^verbatim>\<open>from\<close>: a success carrying the
  value, or a cast failure carrying its \<^verbatim>\<open>message\<close>. \<^verbatim>\<open>JSON.parse\<close> and \<^verbatim>\<open>JSON.stringify\<close>
  are parameters: \<open>parse\<close> gives the parsed value or the exception it throws,
  \<open>stringify\<close> the text, or \<open>None\<close> for \<^verbatim>\<open>undefined\<close>.
\<close>

type_synonym ('i, 'a) model = "'i \<Rightarrow> ('a, string) result"

text \<open>The loop of \<^verbatim>\<open>list\<close> over \<^verbatim>\<open>stringKeys\<close>, with the array \<^verbatim>\<open>keys\<close> it pushes to.\<close>

fun list_loop :: "(string, 'k) model \<Rightarrow> string list \<Rightarrow> 'k list \<Rightarrow> ('k list, failure) result" where
  "list_loop keyModel [] keys = succeed keys"
| "list_loop keyModel (stringKey # stringKeys) keys =
     (case keyModel stringKey of
        Failure message \<Rightarrow> fail (InternalFailure (Error message))
      | Success k \<Rightarrow> list_loop keyModel stringKeys (keys @ [k]))"

definition default_stringFromValue :: "('v \<Rightarrow> jsstring option) \<Rightarrow> 'v \<Rightarrow> jsstring" where
  "default_stringFromValue stringify v =
     (case stringify v of None \<Rightarrow> [] | Some text \<Rightarrow> (if text = [] then [] else text))"

definition createJSONModeledStorage ::
  "(jsstring \<Rightarrow> error + 'j) \<Rightarrow> ('s, string, jsstring) store \<Rightarrow> ('j, 'v) model \<Rightarrow>
   (string, 'k) model \<Rightarrow> ('k \<Rightarrow> string) \<Rightarrow> ('v \<Rightarrow> jsstring) \<Rightarrow> ('s, 'k, 'v) store" where
  "createJSONModeledStorage parse mapStore valueModel keyModel stringFromKey stringFromValue =
     \<lparr> store_list = (\<lambda>st.
         (case store_list mapStore st of
            (Inl ex, st') \<Rightarrow> (Inl ex, st')
          | (Inr r, st') \<Rightarrow>
              (chain_result (chain_then (chain r)
                 (\<lambda>stringKeys. Inr (list_loop keyModel stringKeys []))), st'))),
       store_read = (\<lambda>key st.
         (case store_read mapStore (stringFromKey key) st of
            (Inl ex, st') \<Rightarrow> (Inl ex, st')
          | (Inr r, st') \<Rightarrow>
              (chain_result (chain_catch (chain_then (chain_then (chain r)
                 (\<lambda>content. case parse content of
                      Inl ex \<Rightarrow> Inl ex
                    | Inr parsed \<Rightarrow> Inr (succeed parsed)))
                 (\<lambda>value. case valueModel value of
                      Success v \<Rightarrow> Inr (Success v)
                    | Failure message \<Rightarrow> Inr (Failure (CastFailure message))))
                 (\<lambda>failure. case failure of
                      CastFailure message \<Rightarrow> Inr (fail (InternalFailure (Error message)))
                    | InternalFailure e \<Rightarrow> Inr (fail failure)
                    | NotFound \<Rightarrow> Inr (fail failure))), st'))),
       store_write = (\<lambda>key value. store_write mapStore (stringFromKey key) (stringFromValue value)),
       store_destroy = (\<lambda>key. store_destroy mapStore (stringFromKey key)) \<rparr>"

section \<open>The key-transform combinators\<close>

definition transformKey ::
  "('k \<Rightarrow> 'tk) \<Rightarrow> ('tk \<Rightarrow> 'k) \<Rightarrow> ('s, 'tk, 'v) store \<Rightarrow> ('s, 'k, 'v) store" where
  "transformKey transformKey' untransformKey mapStore =
     \<lparr> store_list = (\<lambda>st.
         (case store_list mapStore st of
            (Inl ex, st') \<Rightarrow> (Inl ex, st')
          | (Inr r, st') \<Rightarrow>
              (Inr (handleResult r
                 (\<lambda>keys. succeed (map untransformKey keys))
                 (\<lambda>failure. fail failure)), st'))),
       store_read = (\<lambda>key. store_read mapStore (transformKey' key)),
       store_write = (\<lambda>key value. store_write mapStore (transformKey' key) value),
       store_destroy = (\<lambda>key. store_destroy mapStore (transformKey' key)) \<rparr>"

text \<open>
  \<^verbatim>\<open>String.prototype.slice(start, end)\<close>: a negative index counts from the end, every
  index is clamped to the string, and a missing \<^verbatim>\<open>end\<close> is the length.
\<close>

definition slice :: "string \<Rightarrow> int \<Rightarrow> int option \<Rightarrow> string" where
  "slice s start end' =
     (let len = int (length s);
          from' = (if start < 0 then max (len + start) 0 else min start len);
          to' = (case end' of
                   None \<Rightarrow> len
                 | Some e \<Rightarrow> (if e < 0 then max (len + e) 0 else min e len))
      in take (nat (to' - from')) (drop (nat from') s))"

text \<open>
  The two arrow functions that \<^verbatim>\<open>transformKeyWithFileExtension\<close> hands to \<^verbatim>\<open>transformKey\<close>,
  and the two of \<^verbatim>\<open>transformKeyWithNamespace\<close>.
\<close>

definition addFileExtension :: "string \<Rightarrow> string \<Rightarrow> string" where
  "addFileExtension fileExtension key = key @ ''.'' @ fileExtension"

definition removeFileExtension :: "string \<Rightarrow> string \<Rightarrow> string" where
  "removeFileExtension fileExtension key =
     slice key 0 (Some (0 - (int (length fileExtension) + 1)))"

definition transformKeyWithFileExtension ::
  "string \<Rightarrow> ('s, string, 'v) store \<Rightarrow> ('s, string, 'v) store" where
  "transformKeyWithFileExtension fileExtension storage =
     transformKey (addFileExtension fileExtension) (removeFileExtension fileExtension) storage"

definition addNamespace :: "string \<Rightarrow> string \<Rightarrow> string" where
  "addNamespace namespace key = namespace @ ''/'' @ key"

definition removeNamespace :: "string \<Rightarrow> string \<Rightarrow> string" where
  "removeNamespace namespace key = slice key (int (length namespace) + 1) None"

definition transformKeyWithNamespace ::
  "string \<Rightarrow> ('s, string, 'v) store \<Rightarrow> ('s, string, 'v) store" where
  "transformKeyWithNamespace namespace storage =
     transformKey (addNamespace namespace) (removeNamespace namespace) storage"

section \<open>The factory\<close>

text \<open>
  \<^verbatim>\<open>config.storage\<close>: the \<^verbatim>\<open>type\<close> that the \<^verbatim>\<open>switch\<close> reads, and the fields of the variants.
\<close>

record 'c storage_config =
  storage_type :: string
  dir :: path
  creds :: 'c
  bucketName :: string

record 'c config =
  storage :: "'c storage_config"

text \<open>
  What the stores of the factory live in: the file system, the bucket of the object
  storage, and the \<^verbatim>\<open>internalMap\<close> of the memory store the factory creates. A store over one
  of the three is a store over the whole, leaving the rest alone.
\<close>

record ('v, 'b) world =
  files :: filesystem
  bucket :: 'b
  memory :: "(string, 'v) map2"

definition on_files ::
  "(filesystem \<Rightarrow> 'a \<times> filesystem) \<Rightarrow> ('v, 'b) world \<Rightarrow> 'a \<times> ('v, 'b) world" where
  "on_files op w = (case op (files w) of (r, fs') \<Rightarrow> (r, w\<lparr>files := fs'\<rparr>))"

definition on_bucket ::
  "('b \<Rightarrow> 'a \<times> 'b) \<Rightarrow> ('v, 'b) world \<Rightarrow> 'a \<times> ('v, 'b) world" where
  "on_bucket op w = (case op (bucket w) of (r, b') \<Rightarrow> (r, w\<lparr>bucket := b'\<rparr>))"

definition on_memory ::
  "((string, 'v) map2 \<Rightarrow> 'a \<times> (string, 'v) map2) \<Rightarrow> ('v, 'b) world \<Rightarrow> 'a \<times> ('v, 'b) world" where
  "on_memory op w = (case op (memory w) of (r, m') \<Rightarrow> (r, w\<lparr>memory := m'\<rparr>))"

definition in_world ::
  "(('s \<Rightarrow> 'k list outcome \<times> 's) \<Rightarrow> 'w \<Rightarrow> 'k list outcome \<times> 'w) \<Rightarrow>
   (('s \<Rightarrow> 'v outcome \<times> 's) \<Rightarrow> 'w \<Rightarrow> 'v outcome \<times> 'w) \<Rightarrow>
   (('s \<Rightarrow> unit outcome \<times> 's) \<Rightarrow> 'w \<Rightarrow> unit outcome \<times> 'w) \<Rightarrow>
   ('s, 'k, 'v) store \<Rightarrow> ('w, 'k, 'v) store" where
  "in_world on_l on_r on_u s =
     \<lparr> store_list = on_l (store_list s),
       store_read = (\<lambda>key. on_r (store_read s key)),
       store_write = (\<lambda>key value. on_u (store_write s key value)),
       store_destroy = (\<lambda>key. on_u (store_destroy s key)) \<rparr>"

text \<open>
  \<^verbatim>\<open>createModelMapStore\<close>. \<^verbatim>\<open>createS3Storage\<close> (\<^verbatim>\<open>services/storage/s3Storage\<close>) is not among
  the sources and is a parameter: from credentials and a bucket name it gives a string
  store over the bucket, or throws. The \<^verbatim>\<open>switch\<close> is the chain of comparisons, in the
  order of its cases.
\<close>

definition createModelMapStore ::
  "(jsstring \<Rightarrow> error + 'j) \<Rightarrow> ('v \<Rightarrow> jsstring option) \<Rightarrow>
   ('c \<Rightarrow> string \<Rightarrow> 'b \<Rightarrow> (error + ('b, string, jsstring) store) \<times> 'b) \<Rightarrow>
   'c config \<Rightarrow> ('j, 'v) model \<Rightarrow> (string, string) model \<Rightarrow> string \<Rightarrow> ('v, 'b) world \<Rightarrow>
   (error + (('v, 'b) world, string, 'v) store) \<times> ('v, 'b) world" where
  "createModelMapStore parse stringify createS3Storage config valueModel keyModel namespace w =
     (if storage_type (storage config) = ''s3-json'' then
        (case createS3Storage (creds (storage config)) (bucketName (storage config)) (bucket w) of
           (Inl ex, b') \<Rightarrow> (Inl ex, w\<lparr>bucket := b'\<rparr>)
         | (Inr s3, b') \<Rightarrow>
             (Inr (createJSONModeledStorage parse
                (transformKeyWithNamespace namespace
                   (transformKeyWithFileExtension ''.json''
                      (in_world on_bucket on_bucket on_bucket s3)))
                valueModel keyModel (\<lambda>k. k) (default_stringFromValue stringify)),
              w\<lparr>bucket := b'\<rparr>))
      else if storage_type (storage config) = ''local-json'' then
        (case createDirectoryMapStore (join (dir (storage config)) namespace) (files w) of
           (Inl ex, fs') \<Rightarrow> (Inl ex, w\<lparr>files := fs'\<rparr>)
         | (Inr d, fs') \<Rightarrow>
             (Inr (createJSONModeledStorage parse
                (transformKeyWithFileExtension ''.json''
                   (in_world on_files on_files on_files d))
                valueModel keyModel (\<lambda>k. k) (default_stringFromValue stringify)),
              w\<lparr>files := fs'\<rparr>))
      else if storage_type (storage config) = ''memory'' then
        (Inr (in_world on_memory on_memory on_memory createMemoryMapStore),
         w\<lparr>memory := createMap2\<rparr>)
      else
        (Inl (Error (''Unknown storage type: '' @ storage_type (storage config))), w))"

section \<open>Runs of calls and examples\<close>

text \<open>Writing a list of entries through a store, one call after the other.\<close>

fun write_all :: "('s, 'k, 'v) store \<Rightarrow> ('k \<times> 'v) list \<Rightarrow> 's \<Rightarrow> 's" where
  "write_all s [] st = st"
| "write_all s ((k, v) # kvs) st = write_all s kvs (snd (store_write s k v st))"

text \<open>The directory \<^verbatim>\<open>/data\<close>, and the store made for it on an empty file system.\<close>

abbreviation data_dir :: path where
  "data_dir \<equiv> \<lparr>segments = [''data''], trailing = False\<rparr>"

abbreviation fresh_data :: filesystem where
  "fresh_data \<equiv> snd (createDirectoryMapStore data_dir [])"

text \<open>
  Stand-ins for the examples. \<open>parse_literal\<close> is \<^verbatim>\<open>JSON.parse\<close> on the texts \<^verbatim>\<open>null\<close>,
  \<^verbatim>\<open>true\<close> and \<^verbatim>\<open>false\<close>, and throws on every other text, as \<^verbatim>\<open>JSON.parse\<close> does on
  \<^verbatim>\<open>{\<close>; \<open>stringify_literal\<close> is \<^verbatim>\<open>JSON.stringify\<close> on these values. \<open>boolean_model\<close>
  accepts the booleans, \<open>nonempty_key_model\<close> the keys that are not empty.
\<close>

datatype literal = JNull | JBool bool

definition parse_literal :: "jsstring \<Rightarrow> error + literal" where
  "parse_literal content =
     (if content = js ''null'' then Inr JNull
      else if content = js ''true'' then Inr (JBool True)
      else if content = js ''false'' then Inr (JBool False)
      else Inl (SyntaxError ''Unexpected token''))"

definition stringify_literal :: "bool \<Rightarrow> jsstring option" where
  "stringify_literal b = Some (js (if b then ''true'' else ''false''))"

definition boolean_model :: "(literal, bool) model" where
  "boolean_model j = (case j of JBool b \<Rightarrow> Success b | JNull \<Rightarrow> Failure ''not a boolean'')"

definition nonempty_key_model :: "(string, string) model" where
  "nonempty_key_model k = (if k = [] then Failure ''empty key'' else Success k)"

text \<open>
  A stand-in for \<^verbatim>\<open>createS3Storage\<close> in the examples: a memory store in place of the bucket.
\<close>

definition memory_bucket_storage ::
  "unit \<Rightarrow> string \<Rightarrow> (string, jsstring) map2 \<Rightarrow>
   (error + ((string, jsstring) map2, string, jsstring) store) \<times> (string, jsstring) map2" where
  "memory_bucket_storage credentials name b = (Inr createMemoryMapStore, b)"

abbreviation root_dir :: path where
  "root_dir \<equiv> \<lparr>segments = [], trailing = False\<rparr>"

abbreviation config_of :: "string \<Rightarrow> unit config" where
  "config_of t \<equiv>
     \<lparr>storage = \<lparr>storage_type = t, dir = root_dir, creds = (), bucketName = ''atlas''\<rparr>\<rparr>"

abbreviation empty_world :: "(bool, (string, jsstring) map2) world" where
  "empty_world \<equiv> \<lparr>files = [], bucket = [], memory = []\<rparr>"

text \<open>
  The two assemblies the factory makes for the namespace \<^verbatim>\<open>chapters\<close> from these stand-ins.
\<close>

abbreviation chapters_local :: "((bool, (string, jsstring) map2) world, string, bool) store" where
  "chapters_local \<equiv>
     createJSONModeledStorage parse_literal
       (transformKeyWithFileExtension ''.json''
          (in_world on_files on_files on_files
             \<lparr> store_list = directory_list (join root_dir ''chapters''),
               store_read = directory_read (join root_dir ''chapters''),
               store_write = directory_write (join root_dir ''chapters''),
               store_destroy = directory_destroy (join root_dir ''chapters'') \<rparr>))
       boolean_model Success (\<lambda>k. k) (default_stringFromValue stringify_literal)"

abbreviation chapters_s3 :: "((bool, (string, jsstring) map2) world, string, bool) store" where
  "chapters_s3 \<equiv>
     createJSONModeledStorage parse_literal
       (transformKeyWithNamespace ''chapters''
          (transformKeyWithFileExtension ''.json''
             (in_world on_bucket on_bucket on_bucket createMemoryMapStore)))
       boolean_model Success (\<lambda>k. k) (default_stringFromValue stringify_literal)"

section \<open>Properties of the memory store\<close>

lemma memory_write: "store_write createMemoryMapStore k v m = (Inr (Success ()), AList.update k v m)"
  by (simp add: createMemoryMapStore_def set_entry_def handleResult_def succeed_def)

lemma memory_read:
  "store_read createMemoryMapStore k m =
     (Inr (case map_of m k of Some v \<Rightarrow> Success v | None \<Rightarrow> Failure NotFound), m)"
  by (simp add: createMemoryMapStore_def get_def handleResult_def succeed_def fail_def
      split: option.splits)

lemma memory_destroy:
  "store_destroy createMemoryMapStore k m =
     (case map_of m k of
        Some v \<Rightarrow> (Inr (Success ()), AList.delete k m)
      | None \<Rightarrow> (Inr (Failure NotFound), m))"
  by (simp add: createMemoryMapStore_def delete_def handleResult_def succeed_def fail_def
      split: option.splits)

lemma memory_list: "store_list createMemoryMapStore m = (Inr (Success (map fst m)), m)"
proof -
  have "(\<lambda>(key, value). key) = (fst :: 'a \<times> 'b \<Rightarrow> 'a)" by auto
  then show ?thesis by (simp add: createMemoryMapStore_def entries_def succeed_def)
qed


lemma memory_write_destroy_read:
  "fst (store_read createMemoryMapStore k
     (snd (store_destroy createMemoryMapStore k
        (snd (store_write createMemoryMapStore k v m))))) = Inr (Failure NotFound)"
  by (simp add: memory_write memory_read memory_destroy update_conv' delete_conv')

section \<open>Properties of UTF-8\<close>


lemma not_surrogate_js: "\<not> isHighSurrogate (Unit16 (CHR 0x00) c) \<and> \<not> isLowSurrogate (Unit16 (CHR 0x00) c)"
  by (simp add: isHighSurrogate_def isLowSurrogate_def)

lemma isWellFormed_js: "isWellFormed (js s)"
proof (induction s rule: induct_list012)
  case 1
  then show ?case by (simp add: js_def)
next
  case (2 x)
  then show ?case by (simp add: js_def not_surrogate_js)
next
  case (3 x y zs)
  then show ?case by (simp add: js_def not_surrogate_js)
qed

section \<open>Properties of the file system\<close>

lemma walk_snoc:
  "walk fs pre (xs @ [c]) =
     (case walk fs pre xs of
        Inl e \<Rightarrow> Inl e
      | Inr None \<Rightarrow> Inl ENOENT
      | Inr (Some (File x)) \<Rightarrow> Inl ENOTDIR
      | Inr (Some Dir) \<Rightarrow>
          (if NAME_MAX < utf8_length c then Inl ENAMETOOLONG
           else Inr (node_at fs (pre @ xs @ [c]))))"
  by (induction xs arbitrary: pre) (auto split: option.splits node.splits sum.splits)



lemma node_at_extend: "node_at fs q = Some n \<Longrightarrow> node_at (fs @ ext) q = Some n"
  by (auto simp: node_at_def split: if_splits)

lemma walk_extend: "walk fs pre rest = Inr (Some n) \<Longrightarrow> walk (fs @ ext) pre rest = Inr (Some n)"
proof (induction rest arbitrary: pre)
  case Nil
  then show ?case by (simp add: node_at_extend)
next
  case (Cons c cs)
  from Cons.prems have d: "node_at fs pre = Some Dir" and w: "walk fs (pre @ [c]) cs = Inr (Some n)"
    and l: "\<not> NAME_MAX < utf8_length c"
    by (auto split: option.splits node.splits if_splits)
  show ?case using Cons.IH[OF w] node_at_extend[OF d, of ext] l by simp
qed

lemma mkdir_from_walk:
  "mkdir_from fs pre rest = Inr fs' \<Longrightarrow> walk fs [] pre = Inr (Some Dir) \<Longrightarrow>
   walk fs' [] (pre @ rest) = Inr (Some Dir)"
proof (induction rest arbitrary: fs pre)
  case Nil
  then show ?case by simp
next
  case (Cons c cs)
  from Cons.prems(1) have l: "\<not> NAME_MAX < utf8_length c"
    by (auto split: if_splits)
  show ?case
  proof (cases "map_of fs (pre @ [c])")
    case None
    with Cons.prems(1) l have m: "mkdir_from (fs @ [(pre @ [c], Dir)]) (pre @ [c]) cs = Inr fs'"
      by simp
    have "walk (fs @ [(pre @ [c], Dir)]) [] (pre @ [c]) = Inr (Some Dir)"
      using walk_extend[OF Cons.prems(2), of "[(pre @ [c], Dir)]"] None l
      by (simp add: walk_snoc node_at_def map_add_def)
    from Cons.IH[OF m this] show ?thesis by simp
  next
    case (Some n)
    with Cons.prems(1) l have n: "n = Dir" and m: "mkdir_from fs (pre @ [c]) cs = Inr fs'"
      by (auto split: node.splits)
    have "walk fs [] (pre @ [c]) = Inr (Some Dir)"
      using Cons.prems(2) Some n l by (simp add: walk_snoc node_at_def)
    from Cons.IH[OF m this] show ?thesis by simp
  qed
qed

section \<open>Properties of the directory store\<close>

lemma createDirectoryMapStore_store:
  "createDirectoryMapStore p fs = (Inr s, fs') \<Longrightarrow>
   s = \<lparr> store_list = directory_list p, store_read = directory_read p,
         store_write = directory_write p, store_destroy = directory_destroy p \<rparr>"
  by (auto simp: createDirectoryMapStore_def Let_def split: sum.splits bool.splits)

text \<open>A store that was made has its directory.\<close>

lemma createDirectoryMapStore_stat:
  assumes "createDirectoryMapStore p fs = (Inr s, fs')"
  shows "stat fs' p = Inr Dir"
proof (cases "directoryExists fs p")
  case (Inl ex)
  with assms show ?thesis by (simp add: createDirectoryMapStore_def Let_def)
next
  case (Inr b)
  show ?thesis
  proof (cases b)
    case True
    with Inr assms have "fs' = fs" by (simp add: createDirectoryMapStore_def Let_def)
    moreover from Inr True have "stat fs p = Inr Dir"
      by (auto simp: directoryExists_def isDirectory_def split: sum.splits node.splits if_splits)
    ultimately show ?thesis by simp
  next
    case False
    with Inr assms have m: "mkdir fs p = Inr fs'"
      by (auto simp: createDirectoryMapStore_def Let_def split: sum.splits)
    then have v: "validate p = None" and mf: "mkdir_from fs [] (segments p) = Inr fs'"
      by (auto simp: mkdir_def split: option.splits)
    have "walk fs' [] ([] @ segments p) = Inr (Some Dir)"
      using mf by (intro mkdir_from_walk[of fs "[]"]) (simp_all add: node_at_def)
    with v show ?thesis by (simp add: stat_def resolve_def)
  qed
qed

text \<open>
  While the directory is there, \<^verbatim>\<open>destroy\<close> of any key asks \<^verbatim>\<open>unlink\<close> for the directory,
  is refused, and changes nothing.
\<close>

lemma directory_destroy_unlinks_directory:
  "stat fs p = Inr Dir \<Longrightarrow>
   directory_destroy p key fs = (Inr (Failure (InternalFailure (SystemError EISDIR))), fs)"
  by (auto simp: directory_destroy_def unlink_def stat_def fail_def Let_def
      split: sum.splits option.splits node.splits)


text \<open>
  C1. For every key that has been written, \<^verbatim>\<open>destroy\<close> of the directory store should
  remove the one file of that key. It does not: in the store made for \<^verbatim>\<open>/data\<close>, after
  \<^verbatim>\<open>write("a", "x")\<close> and \<^verbatim>\<open>write("b", "y")\<close>, the call \<^verbatim>\<open>destroy("a")\<close> returns an
  internal failure (the \<^verbatim>\<open>EISDIR\<close> of \<^verbatim>\<open>unlink\<close> on the directory), the file system is what it
  was, and \<^verbatim>\<open>read("a")\<close> still returns \<^verbatim>\<open>"x"\<close>.
\<close>

theorem directory_destroy_keeps_file:
  "snd (directory_write data_dir ''b'' (js ''y'')
      (snd (directory_write data_dir ''a'' (js ''x'') fresh_data)))
     = [([''data''], Dir), ([''data'', ''a''], File (js ''x'')),
        ([''data'', ''b''], File (js ''y''))]
   \<and> directory_destroy data_dir ''a''
       [([''data''], Dir), ([''data'', ''a''], File (js ''x'')),
        ([''data'', ''b''], File (js ''y''))]
     = (Inr (Failure (InternalFailure (SystemError EISDIR))),
       [([''data''], Dir), ([''data'', ''a''], File (js ''x'')),
        ([''data'', ''b''], File (js ''y''))])
   \<and> fst (directory_read data_dir ''a''
       [([''data''], Dir), ([''data'', ''a''], File (js ''x'')),
        ([''data'', ''b''], File (js ''y''))])
     = Inr (Success (js ''x''))"
  by code_simp

text \<open>
  C2. On a freshly made directory store without entries, \<^verbatim>\<open>destroy("missing")\<close> should
  return a not-found failure. It returns an internal failure instead, again the
  \<^verbatim>\<open>EISDIR\<close> of \<^verbatim>\<open>unlink\<close> on the directory; no file or directory is created or removed.
\<close>

theorem directory_destroy_missing_internal_failure:
  "fresh_data = [([''data''], Dir)]
   \<and> fst (directory_list data_dir fresh_data) = Inr (Success [])
   \<and> directory_destroy data_dir ''missing'' fresh_data
     = (Inr (Failure (InternalFailure (SystemError EISDIR))), fresh_data)
   \<and> fst (directory_destroy data_dir ''missing'' fresh_data) \<noteq> Inr (Failure NotFound)"
  by code_simp

text \<open>
  C3. After \<^verbatim>\<open>write(k, v)\<close> and \<^verbatim>\<open>destroy(k)\<close>, \<^verbatim>\<open>read(k)\<close> should return a not-found failure
  in every backend. In the directory store it returns \<^verbatim>\<open>v\<close>: here with the key \<^verbatim>\<open>"k"\<close> and
  the value \<^verbatim>\<open>"v"\<close> in the store made for \<^verbatim>\<open>/data\<close>.
\<close>

theorem directory_write_destroy_read_finds:
  "fst (directory_read data_dir ''k''
     (snd (directory_destroy data_dir ''k''
        (snd (directory_write data_dir ''k'' (js ''v'') fresh_data))))) = Inr (Success (js ''v''))"
  by code_simp




section \<open>Properties of the key-transform combinators\<close>

lemma removeNamespace_drop: "removeNamespace namespace key = drop (length namespace + 1) key"
  by (auto simp: removeNamespace_def slice_def Let_def min_def nat_add_distrib)

lemma removeFileExtension_take:
  "removeFileExtension fileExtension key = take (length key - (length fileExtension + 1)) key"
proof -
  have "nat (int (length key) + (0 - (int (length fileExtension) + 1)))
          = length key - (length fileExtension + 1)"
    by linarith
  then show ?thesis
    by (simp add: removeFileExtension_def slice_def Let_def max_def)
qed

lemma removeFileExtension_add: "removeFileExtension ext (addFileExtension ext k) = k"
  by (simp add: removeFileExtension_take addFileExtension_def)

lemma removeNamespace_add: "removeNamespace ns (addNamespace ns k) = k"
  by (simp add: removeNamespace_drop addNamespace_def)

lemma transformKey_write: "store_write (transformKey f g s) k v = store_write s (f k) v"
  by (simp add: transformKey_def)

lemma transformKey_read: "store_read (transformKey f g s) k = store_read s (f k)"
  by (simp add: transformKey_def)

lemma transformKey_destroy: "store_destroy (transformKey f g s) k = store_destroy s (f k)"
  by (simp add: transformKey_def)

lemma transformKey_list:
  "store_list s st = (Inr (Success keys), st') \<Longrightarrow>
   store_list (transformKey f g s) st = (Inr (Success (map g keys)), st')"
  by (simp add: transformKey_def handleResult_def succeed_def)

lemma write_all_transformKey:
  "write_all (transformKey f g s) kvs st = write_all s (map (\<lambda>(k, v). (f k, v)) kvs) st"
  by (induction kvs arbitrary: st) (auto simp: transformKey_write)

lemma write_all_memory_keys:
  "fst ` set (write_all createMemoryMapStore kvs m) = fst ` set m \<union> fst ` set kvs"
proof (induction kvs arbitrary: m)
  case Nil
  then show ?case by simp
next
  case (Cons kv kvs)
  obtain k v where kv: "kv = (k, v)" by (cases kv)
  have "fst ` set (write_all createMemoryMapStore (kv # kvs) m)
          = fst ` set (AList.update k v m) \<union> fst ` set kvs"
    using Cons.IH[of "AList.update k v m"] by (simp add: kv memory_write)
  then show ?case by (auto simp: kv dom_update)
qed

lemma write_all_memory_distinct:
  "distinct (map fst m) \<Longrightarrow> distinct (map fst (write_all createMemoryMapStore kvs m))"
  by (induction kvs arbitrary: m) (auto simp: memory_write distinct_update)

text \<open>
  A memory store that is new and is written only through a key transform whose way
  back undoes its way there lists the keys that were written, each once.
\<close>

lemma list_transformKey_memory:
  assumes gf: "\<And>k. g (f k) = k"
  shows "\<exists>ks. store_list (transformKey f g createMemoryMapStore)
                 (write_all (transformKey f g createMemoryMapStore) kvs createMap2)
               = (Inr (Success ks),
                  write_all (transformKey f g createMemoryMapStore) kvs createMap2)
             \<and> set ks = fst ` set kvs \<and> distinct ks"
proof -
  let ?m = "write_all createMemoryMapStore (map (\<lambda>(k, v). (f k, v)) kvs) []"
  have keys: "set (map fst ?m) = f ` fst ` set kvs"
    using write_all_memory_keys[of "map (\<lambda>(k, v). (f k, v)) kvs" "[]"]
    by (force simp: image_image)
  have d: "distinct (map fst ?m)" by (rule write_all_memory_distinct) simp
  have "inj_on g (set (map fst ?m))" unfolding keys by (rule inj_onI) (auto simp: gf)
  with d have "distinct (map g (map fst ?m))" by (simp add: distinct_map del: map_map)
  moreover have "set (map g (map fst ?m)) = fst ` set kvs"
    using keys by (simp add: image_image gf del: map_map)
  ultimately show ?thesis
    using transformKey_list[OF memory_list, of f g ?m]
    by (auto simp: write_all_transformKey createMap2_def simp del: map_map)
qed

text \<open>
  C5, as stated: \<^verbatim>\<open>list()\<close> of a wrapped store returns exactly the keys written through
  that wrapping. It does not when the inner store is shared: with \<^verbatim>\<open>r1\<close> written through
  the namespace \<^verbatim>\<open>roles\<close> and \<^verbatim>\<open>u1\<close> through the namespace \<^verbatim>\<open>users\<close> over one memory store, the
  listing of \<^verbatim>\<open>users\<close> is \<^verbatim>\<open>r1\<close>, \<^verbatim>\<open>u1\<close>. Nor when the inner store renames a key: \<^verbatim>\<open>./b\<close> written
  through the extension \<^verbatim>\<open>json\<close> over the directory store of \<^verbatim>\<open>/data\<close> is listed as \<^verbatim>\<open>b\<close>.
\<close>

theorem wrapped_list_counterexample:
  "fst (store_list (transformKeyWithNamespace ''users'' createMemoryMapStore)
     (snd (store_write (transformKeyWithNamespace ''users'' createMemoryMapStore) ''u1'' ''v''
        (snd (store_write (transformKeyWithNamespace ''roles'' createMemoryMapStore) ''r1'' ''x''
           createMap2)))))
     = Inr (Success [''r1'', ''u1''])
   \<and> fst (store_list (transformKeyWithNamespace ''users'' createMemoryMapStore)
     (snd (store_write (transformKeyWithNamespace ''users'' createMemoryMapStore) ''u1'' ''v''
        (snd (store_write (transformKeyWithNamespace ''roles'' createMemoryMapStore) ''r1'' ''x''
           createMap2)))))
     \<noteq> Inr (Success [''u1''])
   \<and> fst (store_write
        (transformKeyWithFileExtension ''json''
           \<lparr> store_list = directory_list data_dir, store_read = directory_read data_dir,
             store_write = directory_write data_dir, store_destroy = directory_destroy data_dir \<rparr>)
        ''./b'' (js ''v'') fresh_data)
     = Inr (Success ())
   \<and> fst (store_list
        (transformKeyWithFileExtension ''json''
           \<lparr> store_list = directory_list data_dir, store_read = directory_read data_dir,
             store_write = directory_write data_dir, store_destroy = directory_destroy data_dir \<rparr>)
        (snd (store_write
           (transformKeyWithFileExtension ''json''
              \<lparr> store_list = directory_list data_dir, store_read = directory_read data_dir,
                store_write = directory_write data_dir,
                store_destroy = directory_destroy data_dir \<rparr>)
           ''./b'' (js ''v'') fresh_data)))
     = Inr (Success [''b''])"
  by code_simp

text \<open>
  C5, amended. For the namespace and the extension combinator, the backward key
  transform applied to the forward transform of a key gives the key back. When
  \<^verbatim>\<open>list()\<close> of the inner store returns keys, \<^verbatim>\<open>list()\<close> of the wrapped store returns those
  keys with the backward transform applied to each. When the inner listing is the
  forward transforms of some keys, \<^verbatim>\<open>list()\<close> returns those keys; and a new memory store
  written only through the wrapping lists exactly the set of the keys written through
  it.
\<close>

theorem key_transforms_round_trip:
  "removeFileExtension ext (addFileExtension ext k) = k
   \<and> removeNamespace ns (addNamespace ns k) = k
   \<and> (store_list s st = (Inr (Success keys), st') \<longrightarrow>
        store_list (transformKeyWithNamespace ns s) st
          = (Inr (Success (map (removeNamespace ns) keys)), st'))
   \<and> (store_list s st = (Inr (Success keys), st') \<longrightarrow>
        store_list (transformKeyWithFileExtension ext s) st
          = (Inr (Success (map (removeFileExtension ext) keys)), st'))
   \<and> (store_list s st = (Inr (Success (map (addNamespace ns) ks)), st') \<longrightarrow>
        store_list (transformKeyWithNamespace ns s) st = (Inr (Success ks), st'))
   \<and> (store_list s st = (Inr (Success (map (addFileExtension ext) ks)), st') \<longrightarrow>
        store_list (transformKeyWithFileExtension ext s) st = (Inr (Success ks), st'))
   \<and> (\<exists>ks'. fst (store_list (transformKeyWithNamespace ns createMemoryMapStore)
               (write_all (transformKeyWithNamespace ns createMemoryMapStore) kvs createMap2))
             = Inr (Success ks') \<and> set ks' = fst ` set kvs \<and> distinct ks')
   \<and> (\<exists>ks'. fst (store_list (transformKeyWithFileExtension ext createMemoryMapStore)
               (write_all (transformKeyWithFileExtension ext createMemoryMapStore) kvs createMap2))
             = Inr (Success ks') \<and> set ks' = fst ` set kvs \<and> distinct ks')"
proof -
  have n: "\<exists>ks'. fst (store_list (transformKeyWithNamespace ns createMemoryMapStore)
               (write_all (transformKeyWithNamespace ns createMemoryMapStore) kvs createMap2))
             = Inr (Success ks') \<and> set ks' = fst ` set kvs \<and> distinct ks'"
    using list_transformKey_memory[of "removeNamespace ns" "addNamespace ns" kvs]
    unfolding transformKeyWithNamespace_def by (auto simp: removeNamespace_add)
  have e: "\<exists>ks'. fst (store_list (transformKeyWithFileExtension ext createMemoryMapStore)
               (write_all (transformKeyWithFileExtension ext createMemoryMapStore) kvs createMap2))
             = Inr (Success ks') \<and> set ks' = fst ` set kvs \<and> distinct ks'"
    using list_transformKey_memory[of "removeFileExtension ext" "addFileExtension ext" kvs]
    unfolding transformKeyWithFileExtension_def by (auto simp: removeFileExtension_add)
  have gn: "store_list s st = (Inr (Success keys), st') \<longrightarrow>
        store_list (transformKeyWithNamespace ns s) st
          = (Inr (Success (map (removeNamespace ns) keys)), st')"
  proof
    assume "store_list s st = (Inr (Success keys), st')"
    from transformKey_list[OF this, of "addNamespace ns" "removeNamespace ns"]
    show "store_list (transformKeyWithNamespace ns s) st
          = (Inr (Success (map (removeNamespace ns) keys)), st')"
      by (simp add: transformKeyWithNamespace_def)
  qed
  have ge: "store_list s st = (Inr (Success keys), st') \<longrightarrow>
        store_list (transformKeyWithFileExtension ext s) st
          = (Inr (Success (map (removeFileExtension ext) keys)), st')"
  proof
    assume "store_list s st = (Inr (Success keys), st')"
    from transformKey_list[OF this, of "addFileExtension ext" "removeFileExtension ext"]
    show "store_list (transformKeyWithFileExtension ext s) st
          = (Inr (Success (map (removeFileExtension ext) keys)), st')"
      by (simp add: transformKeyWithFileExtension_def)
  qed
  have ln: "store_list s st = (Inr (Success (map (addNamespace ns) ks)), st') \<longrightarrow>
        store_list (transformKeyWithNamespace ns s) st = (Inr (Success ks), st')"
  proof
    assume "store_list s st = (Inr (Success (map (addNamespace ns) ks)), st')"
    from transformKey_list[OF this, of "addNamespace ns" "removeNamespace ns"]
    show "store_list (transformKeyWithNamespace ns s) st = (Inr (Success ks), st')"
      by (simp add: transformKeyWithNamespace_def removeNamespace_add comp_def)
  qed
  have le: "store_list s st = (Inr (Success (map (addFileExtension ext) ks)), st') \<longrightarrow>
        store_list (transformKeyWithFileExtension ext s) st = (Inr (Success ks), st')"
  proof
    assume "store_list s st = (Inr (Success (map (addFileExtension ext) ks)), st')"
    from transformKey_list[OF this, of "addFileExtension ext" "removeFileExtension ext"]
    show "store_list (transformKeyWithFileExtension ext s) st = (Inr (Success ks), st')"
      by (simp add: transformKeyWithFileExtension_def removeFileExtension_add comp_def)
  qed
  from n e gn ge ln le show ?thesis
    by (simp only: removeFileExtension_add removeNamespace_add simp_thms)
qed

theorem key_transforms_round_trip_witness:
  "store_list createMemoryMapStore [(''roles/r1'', ''x''), (''users/u1'', ''v'')]
     = (Inr (Success [''roles/r1'', ''users/u1'']), [(''roles/r1'', ''x''), (''users/u1'', ''v'')])
   \<and> store_list (transformKeyWithNamespace ''users'' createMemoryMapStore)
        [(''roles/r1'', ''x''), (''users/u1'', ''v'')]
     = (Inr (Success (map (removeNamespace ''users'') [''roles/r1'', ''users/u1''])),
        [(''roles/r1'', ''x''), (''users/u1'', ''v'')])
   \<and> store_list (transformKeyWithFileExtension ''json'' createMemoryMapStore)
        [(''roles/r1'', ''x''), (''users/u1'', ''v'')]
     = (Inr (Success (map (removeFileExtension ''json'') [''roles/r1'', ''users/u1''])),
        [(''roles/r1'', ''x''), (''users/u1'', ''v'')])
   \<and> store_list createMemoryMapStore [(''users/u1'', ''v'')]
     = (Inr (Success (map (addNamespace ''users'') [''u1''])), [(''users/u1'', ''v'')])
   \<and> store_list (transformKeyWithNamespace ''users'' createMemoryMapStore) [(''users/u1'', ''v'')]
     = (Inr (Success [''u1'']), [(''users/u1'', ''v'')])
   \<and> store_list createMemoryMapStore [(''u1.json'', ''v'')]
     = (Inr (Success (map (addFileExtension ''json'') [''u1''])), [(''u1.json'', ''v'')])
   \<and> store_list (transformKeyWithFileExtension ''json'' createMemoryMapStore) [(''u1.json'', ''v'')]
     = (Inr (Success [''u1'']), [(''u1.json'', ''v'')])
   \<and> (\<exists>ks'. fst (store_list (transformKeyWithNamespace ''users'' createMemoryMapStore)
          (write_all (transformKeyWithNamespace ''users'' createMemoryMapStore)
             [(''u1'', ''v''), (''u2'', ''w''), (''u1'', ''x'')] createMap2))
        = Inr (Success ks') \<and> set ks' = {''u1'', ''u2''} \<and> distinct ks')
   \<and> (\<exists>ks'. fst (store_list (transformKeyWithFileExtension ''json'' createMemoryMapStore)
          (write_all (transformKeyWithFileExtension ''json'' createMemoryMapStore)
             [(''u1'', ''v''), (''u2'', ''w''), (''u1'', ''x'')] createMap2))
        = Inr (Success ks') \<and> set ks' = {''u1'', ''u2''} \<and> distinct ks')"
proof -
  have hg: "store_list createMemoryMapStore [(''roles/r1'', ''x''), (''users/u1'', ''v'')]
     = (Inr (Success [''roles/r1'', ''users/u1'']), [(''roles/r1'', ''x''), (''users/u1'', ''v'')])"
    by (simp add: memory_list)
  have hn: "store_list createMemoryMapStore [(''users/u1'', ''v'')]
     = (Inr (Success (map (addNamespace ''users'') [''u1''])), [(''users/u1'', ''v'')])"
    by (simp add: memory_list addNamespace_def)
  have he: "store_list createMemoryMapStore [(''u1.json'', ''v'')]
     = (Inr (Success (map (addFileExtension ''json'') [''u1''])), [(''u1.json'', ''v'')])"
    by (simp add: memory_list addFileExtension_def)
  have ks: "fst ` set [(''u1'', ''v''), (''u2'', ''w''), (''u1'', ''x'')] = {''u1'', ''u2''}"
    by auto
  note g = key_transforms_round_trip[where ext = "''json''" and ns = "''users''"
      and s = createMemoryMapStore and st = "[(''roles/r1'', ''x''), (''users/u1'', ''v'')]"
      and keys = "[''roles/r1'', ''users/u1'']"
      and st' = "[(''roles/r1'', ''x''), (''users/u1'', ''v'')]"]
  have a1: "store_list (transformKeyWithNamespace ''users'' createMemoryMapStore)
        [(''roles/r1'', ''x''), (''users/u1'', ''v'')]
     = (Inr (Success (map (removeNamespace ''users'') [''roles/r1'', ''users/u1''])),
        [(''roles/r1'', ''x''), (''users/u1'', ''v'')])"
    by (rule g[THEN conjunct2, THEN conjunct2, THEN conjunct1, THEN mp, OF hg])
  have a2: "store_list (transformKeyWithFileExtension ''json'' createMemoryMapStore)
        [(''roles/r1'', ''x''), (''users/u1'', ''v'')]
     = (Inr (Success (map (removeFileExtension ''json'') [''roles/r1'', ''users/u1''])),
        [(''roles/r1'', ''x''), (''users/u1'', ''v'')])"
    by (rule g[THEN conjunct2, THEN conjunct2, THEN conjunct2, THEN conjunct1, THEN mp, OF hg])
  have a3: "store_list (transformKeyWithNamespace ''users'' createMemoryMapStore)
      [(''users/u1'', ''v'')] = (Inr (Success [''u1'']), [(''users/u1'', ''v'')])"
    by (rule key_transforms_round_trip[where ns = "''users''" and s = createMemoryMapStore
          and st = "[(''users/u1'', ''v'')]" and ks = "[''u1'']"
          and st' = "[(''users/u1'', ''v'')]", THEN conjunct2, THEN conjunct2, THEN conjunct2, THEN conjunct2, THEN conjunct1, THEN mp, OF hn])
  have a4: "store_list (transformKeyWithFileExtension ''json'' createMemoryMapStore)
      [(''u1.json'', ''v'')] = (Inr (Success [''u1'']), [(''u1.json'', ''v'')])"
    by (rule key_transforms_round_trip[where ext = "''json''" and s = createMemoryMapStore
          and st = "[(''u1.json'', ''v'')]" and ks = "[''u1'']"
          and st' = "[(''u1.json'', ''v'')]", THEN conjunct2, THEN conjunct2, THEN conjunct2, THEN conjunct2, THEN conjunct2, THEN conjunct1, THEN mp, OF he])
  have a5: "\<exists>ks'. fst (store_list (transformKeyWithNamespace ''users'' createMemoryMapStore)
          (write_all (transformKeyWithNamespace ''users'' createMemoryMapStore)
             [(''u1'', ''v''), (''u2'', ''w''), (''u1'', ''x'')] createMap2))
        = Inr (Success ks') \<and> set ks' = {''u1'', ''u2''} \<and> distinct ks'"
    using key_transforms_round_trip[where ns = "''users''"
          and kvs = "[(''u1'', ''v''), (''u2'', ''w''), (''u1'', ''x'')]", THEN conjunct2, THEN conjunct2, THEN conjunct2, THEN conjunct2, THEN conjunct2, THEN conjunct2, THEN conjunct1]
    unfolding ks .
  have a6: "\<exists>ks'. fst (store_list (transformKeyWithFileExtension ''json'' createMemoryMapStore)
          (write_all (transformKeyWithFileExtension ''json'' createMemoryMapStore)
             [(''u1'', ''v''), (''u2'', ''w''), (''u1'', ''x'')] createMap2))
        = Inr (Success ks') \<and> set ks' = {''u1'', ''u2''} \<and> distinct ks'"
    using key_transforms_round_trip[where ext = "''json''"
          and kvs = "[(''u1'', ''v''), (''u2'', ''w''), (''u1'', ''x'')]", THEN conjunct2, THEN conjunct2, THEN conjunct2, THEN conjunct2, THEN conjunct2, THEN conjunct2, THEN conjunct2]
    unfolding ks .
  show ?thesis
    by (intro conjI hg hn he a1 a2 a3 a4 a5 a6)
qed

text \<open>
  C10. \<^verbatim>\<open>list()\<close> of a namespaced store drops the first \<^verbatim>\<open>namespace.length + 1\<close> characters
  of every key the inner store returns, whether or not the key begins with the
  namespace and the separator: no key is left out of the listing, a key of another
  namespace comes back cut, and a key no longer than the prefix comes back empty.
\<close>

theorem namespace_list_cuts_every_key:
  assumes "store_list s st = (Inr (Success keys), st')"
  shows "store_list (transformKeyWithNamespace ns s) st
           = (Inr (Success (map (drop (length ns + 1)) keys)), st')
       \<and> removeNamespace ns key = drop (length ns + 1) key
       \<and> (length key \<le> length ns + 1 \<longrightarrow> removeNamespace ns key = [])"
proof -
  have "removeNamespace ns = drop (length ns + 1)"
    by (rule ext) (rule removeNamespace_drop)
  with transformKey_list[OF assms, of "addNamespace ns" "removeNamespace ns"]
  show ?thesis
    by (simp add: transformKeyWithNamespace_def)
qed

theorem namespace_list_cuts_every_key_witness:
  "store_list createMemoryMapStore [(''other/x'', ''1''), (''ab'', ''2''), (''users/u1'', ''3'')]
     = (Inr (Success [''other/x'', ''ab'', ''users/u1'']),
        [(''other/x'', ''1''), (''ab'', ''2''), (''users/u1'', ''3'')])
   \<and> store_list (transformKeyWithNamespace ''users'' createMemoryMapStore)
       [(''other/x'', ''1''), (''ab'', ''2''), (''users/u1'', ''3'')]
     = (Inr (Success [''x'', [], ''u1'']),
        [(''other/x'', ''1''), (''ab'', ''2''), (''users/u1'', ''3'')])
   \<and> length ''ab'' \<le> length ''users'' + 1 \<and> removeNamespace ''users'' ''ab'' = []"
proof -
  have h: "store_list createMemoryMapStore
      [(''other/x'', ''1''), (''ab'', ''2''), (''users/u1'', ''3'')]
     = (Inr (Success [''other/x'', ''ab'', ''users/u1'']),
        [(''other/x'', ''1''), (''ab'', ''2''), (''users/u1'', ''3'')])"
    by (simp add: memory_list)
  from namespace_list_cuts_every_key[OF h, of "''users''" "''ab''"] h
  show ?thesis by simp
qed

section \<open>Properties of the JSON-modelled store\<close>

lemma list_loop_valid:
  "(\<forall>s\<in>set good. keyModel s = Success (f s)) \<Longrightarrow>
   list_loop keyModel (good @ rest) acc = list_loop keyModel rest (acc @ map f good)"
  by (induction good arbitrary: acc) auto

lemma json_list:
  "store_list mapStore st = (Inr (Success stringKeys), st') \<Longrightarrow>
   store_list (createJSONModeledStorage parse mapStore valueModel keyModel stringFromKey
      stringFromValue) st = (Inr (list_loop keyModel stringKeys []), st')"
  by (simp add: createJSONModeledStorage_def chain_def chain_then_def chain_result_def)

lemma json_read:
  "store_read (createJSONModeledStorage parse mapStore valueModel keyModel stringFromKey
      stringFromValue) key st =
     (case store_read mapStore (stringFromKey key) st of
        (Inl ex, st') \<Rightarrow> (Inl ex, st')
      | (Inr (Failure NotFound), st') \<Rightarrow> (Inr (Failure NotFound), st')
      | (Inr (Failure (InternalFailure e)), st') \<Rightarrow> (Inr (Failure (InternalFailure e)), st')
      | (Inr (Failure (CastFailure message)), st') \<Rightarrow>
          (Inr (Failure (InternalFailure (Error message))), st')
      | (Inr (Success content), st') \<Rightarrow>
          (case parse content of
             Inl ex \<Rightarrow> (Inl ex, st')
           | Inr parsed \<Rightarrow>
               (case valueModel parsed of
                  Success v \<Rightarrow> (Inr (Success v), st')
                | Failure message \<Rightarrow> (Inr (Failure (InternalFailure (Error message))), st'))))"
  by (simp add: createJSONModeledStorage_def chain_def chain_then_def chain_catch_def
      chain_result_def succeed_def fail_def
      split: prod.splits result.splits failure.splits sum.splits)

text \<open>
  C6, as stated: \<^verbatim>\<open>read\<close> of the JSON-modelled store never throws, and a JSON parse
  exception is returned as a failure. With the text \<^verbatim>\<open>{\<close> stored under the key \<^verbatim>\<open>k\<close> of a
  memory store, \<^verbatim>\<open>read("k")\<close> throws the \<^verbatim>\<open>SyntaxError\<close> of \<^verbatim>\<open>JSON.parse\<close>: no stage of the chain
  catches it.
\<close>

theorem json_read_throws_counterexample:
  "store_read (createJSONModeledStorage parse_literal createMemoryMapStore boolean_model Success
      id (default_stringFromValue stringify_literal)) ''k'' [(''k'', js ''{'')]
     = (Inl (SyntaxError ''Unexpected token''), [(''k'', js ''{'')])"
  by (simp add: json_read memory_read parse_literal_def js_def)

text \<open>
  C6, amended. When the inner \<^verbatim>\<open>read\<close> returns a \<^verbatim>\<open>Result\<close>, \<^verbatim>\<open>read\<close> of the JSON-modelled
  store returns: the inner not-found or internal failure unchanged; for a stored text
  that \<^verbatim>\<open>JSON.parse\<close> accepts, the value of the value model, or an internal failure with
  the message of its cast failure. For a stored text that \<^verbatim>\<open>JSON.parse\<close> rejects, it returns
  no \<^verbatim>\<open>Result\<close>: the exception of \<^verbatim>\<open>JSON.parse\<close> is thrown to the caller.
\<close>

theorem json_read_outcomes:
  assumes "store_read mapStore (stringFromKey key) st = (Inr r, st')"
  shows "(r = Failure NotFound \<longrightarrow>
            store_read (createJSONModeledStorage parse mapStore valueModel keyModel stringFromKey
              stringFromValue) key st = (Inr (Failure NotFound), st'))
       \<and> (r = Failure (InternalFailure e) \<longrightarrow>
            store_read (createJSONModeledStorage parse mapStore valueModel keyModel stringFromKey
              stringFromValue) key st = (Inr (Failure (InternalFailure e)), st'))
       \<and> (r = Success content \<and> parse content = Inr parsed \<and> valueModel parsed = Success v \<longrightarrow>
            store_read (createJSONModeledStorage parse mapStore valueModel keyModel stringFromKey
              stringFromValue) key st = (Inr (Success v), st'))
       \<and> (r = Success content \<and> parse content = Inr parsed
            \<and> valueModel parsed = Failure message \<longrightarrow>
            store_read (createJSONModeledStorage parse mapStore valueModel keyModel stringFromKey
              stringFromValue) key st = (Inr (Failure (InternalFailure (Error message))), st'))
       \<and> (r = Success content \<and> parse content = Inl ex \<longrightarrow>
            store_read (createJSONModeledStorage parse mapStore valueModel keyModel stringFromKey
              stringFromValue) key st = (Inl ex, st'))"
  by (simp add: json_read assms)

theorem json_read_outcomes_witness:
  "store_read createMemoryMapStore (id ''n'') [(''n'', js ''null''), (''t'', js ''true'')]
     = (Inr (Success (js ''null'')), [(''n'', js ''null''), (''t'', js ''true'')])
   \<and> parse_literal (js ''null'') = Inr JNull \<and> boolean_model JNull = Failure ''not a boolean''
   \<and> store_read (createJSONModeledStorage parse_literal createMemoryMapStore boolean_model Success
        id (default_stringFromValue stringify_literal)) ''n'' [(''n'', js ''null''), (''t'', js ''true'')]
     = (Inr (Failure (InternalFailure (Error ''not a boolean''))),
        [(''n'', js ''null''), (''t'', js ''true'')])"
proof -
  have h: "store_read createMemoryMapStore (id ''n'') [(''n'', js ''null''), (''t'', js ''true'')]
     = (Inr (Success (js ''null'')), [(''n'', js ''null''), (''t'', js ''true'')])"
    by (simp add: memory_read)
  have p: "parse_literal (js ''null'') = Inr JNull \<and> boolean_model JNull = Failure ''not a boolean''"
    by (simp add: parse_literal_def boolean_model_def js_def)
  from json_read_outcomes[where mapStore = createMemoryMapStore and stringFromKey = id
      and key = "''n''" and parse = parse_literal and valueModel = boolean_model
      and keyModel = Success and stringFromValue = "default_stringFromValue stringify_literal"
      and content = "js ''null''" and parsed = JNull and message = "''not a boolean''", OF h]
    h p
  show ?thesis by simp
qed

text \<open>
  C7. \<^verbatim>\<open>list()\<close> of the JSON-modelled store puts every key of the inner store through the
  key model. When every key is accepted, it returns the accepted keys, all of them and
  in order. Otherwise the first key that is refused ends the call: it returns an
  internal failure with the message of that key's failure, whatever comes after that
  key, and no list.
\<close>

theorem json_list_validates_keys:
  assumes "store_list mapStore st = (Inr (Success stringKeys), st')"
  shows "((\<forall>s\<in>set stringKeys. keyModel s = Success (f s)) \<longrightarrow>
            store_list (createJSONModeledStorage parse mapStore valueModel keyModel stringFromKey
              stringFromValue) st = (Inr (Success (map f stringKeys)), st'))
       \<and> (stringKeys = good @ bad # rest \<and> (\<forall>s\<in>set good. keyModel s = Success (f s))
            \<and> keyModel bad = Failure message \<longrightarrow>
            store_list (createJSONModeledStorage parse mapStore valueModel keyModel stringFromKey
              stringFromValue) st = (Inr (Failure (InternalFailure (Error message))), st'))"
proof -
  have a: "(\<forall>s\<in>set stringKeys. keyModel s = Success (f s)) \<Longrightarrow>
      list_loop keyModel stringKeys [] = Success (map f stringKeys)"
    using list_loop_valid[of stringKeys keyModel f "[]" "[]"] by (simp add: succeed_def)
  have b: "stringKeys = good @ bad # rest \<Longrightarrow> (\<forall>s\<in>set good. keyModel s = Success (f s)) \<Longrightarrow>
      keyModel bad = Failure message \<Longrightarrow>
      list_loop keyModel stringKeys [] = Failure (InternalFailure (Error message))"
    using list_loop_valid[of good keyModel f "bad # rest" "[]"] by (simp add: fail_def)
  from a b show ?thesis by (auto simp: json_list[OF assms])
qed

theorem json_list_validates_keys_witness:
  "store_list createMemoryMapStore [(''a'', js ''1''), ([], js ''2''), (''b'', js ''3'')]
     = (Inr (Success ([''a''] @ [] # [''b''])), [(''a'', js ''1''), ([], js ''2''), (''b'', js ''3'')])
   \<and> nonempty_key_model ''a'' = Success (id ''a'')
   \<and> nonempty_key_model [] = Failure ''empty key''
   \<and> store_list (createJSONModeledStorage parse_literal createMemoryMapStore boolean_model
        nonempty_key_model id (default_stringFromValue stringify_literal))
        [(''a'', js ''1''), ([], js ''2''), (''b'', js ''3'')]
     = (Inr (Failure (InternalFailure (Error ''empty key''))),
        [(''a'', js ''1''), ([], js ''2''), (''b'', js ''3'')])
   \<and> store_list createMemoryMapStore [(''a'', js ''1''), (''b'', js ''3'')]
     = (Inr (Success [''a'', ''b'']), [(''a'', js ''1''), (''b'', js ''3'')])
   \<and> nonempty_key_model ''b'' = Success (id ''b'')
   \<and> store_list (createJSONModeledStorage parse_literal createMemoryMapStore boolean_model
        nonempty_key_model id (default_stringFromValue stringify_literal))
        [(''a'', js ''1''), (''b'', js ''3'')]
     = (Inr (Success (map id [''a'', ''b''])), [(''a'', js ''1''), (''b'', js ''3'')])"
proof -
  have h1: "store_list createMemoryMapStore [(''a'', js ''1''), ([], js ''2''), (''b'', js ''3'')]
     = (Inr (Success ([''a''] @ [] # [''b''])), [(''a'', js ''1''), ([], js ''2''), (''b'', js ''3'')])"
    by (simp add: memory_list)
  have h2: "store_list createMemoryMapStore [(''a'', js ''1''), (''b'', js ''3'')]
     = (Inr (Success [''a'', ''b'']), [(''a'', js ''1''), (''b'', js ''3'')])"
    by (simp add: memory_list)
  have k: "(\<forall>s\<in>set [''a'']. nonempty_key_model s = Success (id s))
     \<and> nonempty_key_model [] = Failure ''empty key''
     \<and> (\<forall>s\<in>set [''a'', ''b'']. nonempty_key_model s = Success (id s))"
    by (simp add: nonempty_key_model_def)
  from json_list_validates_keys[OF h1, where keyModel = nonempty_key_model and f = id
      and good = "[''a'']" and bad = "[]" and rest = "[''b'']" and message = "''empty key''"
      and parse = parse_literal and valueModel = boolean_model and stringFromKey = id
      and stringFromValue = "default_stringFromValue stringify_literal"] k
  have a: "store_list (createJSONModeledStorage parse_literal createMemoryMapStore boolean_model
        nonempty_key_model id (default_stringFromValue stringify_literal))
        [(''a'', js ''1''), ([], js ''2''), (''b'', js ''3'')]
     = (Inr (Failure (InternalFailure (Error ''empty key''))),
        [(''a'', js ''1''), ([], js ''2''), (''b'', js ''3'')])"
    by simp
  from json_list_validates_keys[OF h2, where keyModel = nonempty_key_model and f = id
      and parse = parse_literal and valueModel = boolean_model and stringFromKey = id
      and stringFromValue = "default_stringFromValue stringify_literal"] k
  have b: "store_list (createJSONModeledStorage parse_literal createMemoryMapStore boolean_model
        nonempty_key_model id (default_stringFromValue stringify_literal))
        [(''a'', js ''1''), (''b'', js ''3'')]
     = (Inr (Success (map id [''a'', ''b''])), [(''a'', js ''1''), (''b'', js ''3'')])"
    by simp
  from h1 h2 k a b show ?thesis by simp
qed

section \<open>Properties of the factory\<close>

lemma createDirectoryMapStore_throws:
  "fst (createDirectoryMapStore p fs) = Inl ex \<Longrightarrow> \<exists>e. ex = SystemError e"
  by (auto simp: createDirectoryMapStore_def directoryExists_def Let_def
      split: sum.splits bool.splits if_splits)

text \<open>
  C8. With a storage type that is none of \<^verbatim>\<open>memory\<close>, \<^verbatim>\<open>local-json\<close> and \<^verbatim>\<open>s3-json\<close>,
  \<^verbatim>\<open>createModelMapStore\<close> throws the error \<^verbatim>\<open>Unknown storage type\<close> and returns no store and
  no \<^verbatim>\<open>Result\<close>. With one of the three it does not throw for that reason: \<^verbatim>\<open>memory\<close> never
  throws, \<^verbatim>\<open>local-json\<close> throws exactly what making the directory store throws (an error
  of the file system), and \<^verbatim>\<open>s3-json\<close> exactly what \<^verbatim>\<open>createS3Storage\<close> throws.
\<close>

theorem unknown_storage_type_throws:
  "(storage_type (storage config) \<noteq> ''memory'' \<and> storage_type (storage config) \<noteq> ''local-json''
      \<and> storage_type (storage config) \<noteq> ''s3-json'' \<longrightarrow>
      createModelMapStore parse stringify createS3Storage config valueModel keyModel namespace w
        = (Inl (Error (''Unknown storage type: '' @ storage_type (storage config))), w))
   \<and> (storage_type (storage config) = ''memory'' \<longrightarrow>
        (\<exists>s. fst (createModelMapStore parse stringify createS3Storage config valueModel keyModel
           namespace w) = Inr s))
   \<and> (storage_type (storage config) = ''local-json'' \<longrightarrow>
        (\<forall>ex. fst (createModelMapStore parse stringify createS3Storage config valueModel keyModel
              namespace w) = Inl ex
           \<longleftrightarrow> fst (createDirectoryMapStore (join (dir (storage config)) namespace) (files w))
              = Inl ex)
        \<and> (\<forall>m. fst (createModelMapStore parse stringify createS3Storage config valueModel keyModel
              namespace w) \<noteq> Inl (Error m)))
   \<and> (storage_type (storage config) = ''s3-json'' \<longrightarrow>
        (\<forall>ex. fst (createModelMapStore parse stringify createS3Storage config valueModel keyModel
              namespace w) = Inl ex
           \<longleftrightarrow> fst (createS3Storage (creds (storage config)) (bucketName (storage config))
                (bucket w)) = Inl ex))"
proof -
  have u: "storage_type (storage config) \<noteq> ''memory'' \<and> storage_type (storage config) \<noteq> ''local-json''
      \<and> storage_type (storage config) \<noteq> ''s3-json'' \<longrightarrow>
      createModelMapStore parse stringify createS3Storage config valueModel keyModel namespace w
        = (Inl (Error (''Unknown storage type: '' @ storage_type (storage config))), w)"
    by (simp add: createModelMapStore_def)
  have m: "storage_type (storage config) = ''memory'' \<longrightarrow>
        (\<exists>s. fst (createModelMapStore parse stringify createS3Storage config valueModel keyModel
           namespace w) = Inr s)"
    by (simp add: createModelMapStore_def)
  have l1: "storage_type (storage config) = ''local-json'' \<Longrightarrow>
        fst (createModelMapStore parse stringify createS3Storage config valueModel keyModel
              namespace w) = Inl ex
           \<longleftrightarrow> fst (createDirectoryMapStore (join (dir (storage config)) namespace) (files w))
              = Inl ex" for ex
    by (auto simp: createModelMapStore_def split: prod.splits sum.splits)
  have l2: "storage_type (storage config) = ''local-json'' \<Longrightarrow>
        fst (createModelMapStore parse stringify createS3Storage config valueModel keyModel
              namespace w) \<noteq> Inl (Error msg)" for msg
    using l1[of "Error msg"]
      createDirectoryMapStore_throws[of "join (dir (storage config)) namespace" "files w" "Error msg"]
    by auto
  have s: "storage_type (storage config) = ''s3-json'' \<Longrightarrow>
        fst (createModelMapStore parse stringify createS3Storage config valueModel keyModel
              namespace w) = Inl ex
           \<longleftrightarrow> fst (createS3Storage (creds (storage config)) (bucketName (storage config))
                (bucket w)) = Inl ex" for ex
    by (auto simp: createModelMapStore_def split: prod.splits sum.splits)
  from u m l1 l2 s show ?thesis by blast
qed

theorem unknown_storage_type_throws_witness:
  "storage_type (storage (config_of ''xml-files'')) \<noteq> ''memory''
   \<and> storage_type (storage (config_of ''xml-files'')) \<noteq> ''local-json''
   \<and> storage_type (storage (config_of ''xml-files'')) \<noteq> ''s3-json''
   \<and> createModelMapStore parse_literal stringify_literal memory_bucket_storage
        (config_of ''xml-files'') boolean_model Success ''chapters'' empty_world
      = (Inl (Error ''Unknown storage type: xml-files''), empty_world)
   \<and> storage_type (storage (config_of ''memory'')) = ''memory''
   \<and> (\<exists>s. fst (createModelMapStore parse_literal stringify_literal memory_bucket_storage
        (config_of ''memory'') boolean_model Success ''chapters'' empty_world) = Inr s)
   \<and> storage_type (storage (config_of ''local-json'')) = ''local-json''
   \<and> fst (createModelMapStore parse_literal stringify_literal memory_bucket_storage
        (config_of ''local-json'') boolean_model Success ''chapters'' empty_world)
      \<noteq> Inl (Error ''Unknown storage type: local-json'')
   \<and> storage_type (storage (config_of ''s3-json'')) = ''s3-json''
   \<and> fst (createModelMapStore parse_literal stringify_literal memory_bucket_storage
        (config_of ''s3-json'') boolean_model Success ''chapters'' empty_world)
      \<noteq> Inl (Error ''Unknown storage type: s3-json'')"
proof -
  have h: "storage_type (storage (config_of ''xml-files'')) \<noteq> ''memory''
     \<and> storage_type (storage (config_of ''xml-files'')) \<noteq> ''local-json''
     \<and> storage_type (storage (config_of ''xml-files'')) \<noteq> ''s3-json''"
    by simp
  from unknown_storage_type_throws[of "config_of ''xml-files''" parse_literal stringify_literal
      memory_bucket_storage boolean_model Success "''chapters''" empty_world] h
  have x: "createModelMapStore parse_literal stringify_literal memory_bucket_storage
        (config_of ''xml-files'') boolean_model Success ''chapters'' empty_world
      = (Inl (Error ''Unknown storage type: xml-files''), empty_world)"
    by simp
  from unknown_storage_type_throws[of "config_of ''memory''" parse_literal stringify_literal
      memory_bucket_storage boolean_model Success "''chapters''" empty_world]
  have m: "\<exists>s. fst (createModelMapStore parse_literal stringify_literal memory_bucket_storage
        (config_of ''memory'') boolean_model Success ''chapters'' empty_world) = Inr s"
    by simp
  have "storage_type (storage (config_of ''local-json'')) = ''local-json''"
    by simp
  with unknown_storage_type_throws[of "config_of ''local-json''" parse_literal stringify_literal
      memory_bucket_storage boolean_model Success "''chapters''" empty_world]
  have l: "fst (createModelMapStore parse_literal stringify_literal memory_bucket_storage
        (config_of ''local-json'') boolean_model Success ''chapters'' empty_world)
      \<noteq> Inl (Error ''Unknown storage type: local-json'')"
    by blast
  have "fst (memory_bucket_storage () ''atlas'' []) \<noteq> Inl (Error ''Unknown storage type: s3-json'')"
    by (simp add: memory_bucket_storage_def)
  with unknown_storage_type_throws[of "config_of ''s3-json''" parse_literal stringify_literal
      memory_bucket_storage boolean_model Success "''chapters''" empty_world]
  have s: "fst (createModelMapStore parse_literal stringify_literal memory_bucket_storage
        (config_of ''s3-json'') boolean_model Success ''chapters'' empty_world)
      \<noteq> Inl (Error ''Unknown storage type: s3-json'')"
    by simp
  from h x m l s show ?thesis by simp
qed

lemma in_world_simps:
  "store_list (in_world a b c s) = a (store_list s)"
  "store_read (in_world a b c s) key = b (store_read s key)"
  "store_write (in_world a b c s) key v = c (store_write s key v)"
  "store_destroy (in_world a b c s) key = c (store_destroy s key)"
  by (simp_all add: in_world_def)

lemma json_write:
  "store_write (createJSONModeledStorage parse mapStore valueModel keyModel stringFromKey
      stringFromValue) key v = store_write mapStore (stringFromKey key) (stringFromValue v)"
  by (simp add: createJSONModeledStorage_def)

lemma json_extension:
  "addFileExtension ''.json'' k = k @ ''..json''"
  "removeFileExtension ''.json'' key = take (length key - 6) key"
  by (simp_all add: addFileExtension_def removeFileExtension_take eval_nat_numeral)

lemma local_json_assembly:
  assumes t: "storage_type (storage config) = ''local-json''"
    and c: "fst (createModelMapStore parse stringify createS3Storage config valueModel keyModel
              namespace w) = Inr store"
  shows "store = createJSONModeledStorage parse
           (transformKeyWithFileExtension ''.json''
              (in_world on_files on_files on_files
                 \<lparr> store_list = directory_list (join (dir (storage config)) namespace),
                   store_read = directory_read (join (dir (storage config)) namespace),
                   store_write = directory_write (join (dir (storage config)) namespace),
                   store_destroy = directory_destroy (join (dir (storage config)) namespace) \<rparr>))
           valueModel keyModel (\<lambda>k. k) (default_stringFromValue stringify)"
proof -
  obtain r fs' where d: "createDirectoryMapStore (join (dir (storage config)) namespace) (files w)
      = (r, fs')"
    by (cases "createDirectoryMapStore (join (dir (storage config)) namespace) (files w)")
  show ?thesis
  proof (cases r)
    case (Inl ex)
    with t c d show ?thesis by (simp add: createModelMapStore_def)
  next
    case (Inr ds)
    with d createDirectoryMapStore_store[of "join (dir (storage config)) namespace" "files w" ds fs']
    have "ds = \<lparr> store_list = directory_list (join (dir (storage config)) namespace),
                   store_read = directory_read (join (dir (storage config)) namespace),
                   store_write = directory_write (join (dir (storage config)) namespace),
                   store_destroy = directory_destroy (join (dir (storage config)) namespace) \<rparr>"
      by simp
    with t c d Inr show ?thesis by (simp add: createModelMapStore_def)
  qed
qed

lemma s3_json_assembly:
  assumes t: "storage_type (storage config) = ''s3-json''"
    and s: "fst (createS3Storage (creds (storage config)) (bucketName (storage config)) (bucket w))
              = Inr s3"
  shows "fst (createModelMapStore parse stringify createS3Storage config valueModel keyModel
              namespace w)
         = Inr (createJSONModeledStorage parse
             (transformKeyWithNamespace namespace
                (transformKeyWithFileExtension ''.json''
                   (in_world on_bucket on_bucket on_bucket s3)))
             valueModel keyModel (\<lambda>k. k) (default_stringFromValue stringify))"
  using t s by (auto simp: createModelMapStore_def split: prod.splits sum.splits)

lemma json_list_general:
  "store_list (createJSONModeledStorage parse mapStore valueModel keyModel stringFromKey
      stringFromValue) st =
     (case store_list mapStore st of
        (Inl ex, st') \<Rightarrow> (Inl ex, st')
      | (Inr (Failure f), st') \<Rightarrow> (Inr (Failure f), st')
      | (Inr (Success stringKeys), st') \<Rightarrow> (Inr (list_loop keyModel stringKeys []), st'))"
  by (simp add: createJSONModeledStorage_def chain_def chain_then_def chain_result_def
      split: prod.splits sum.splits result.splits)

text \<open>
  C9. The factory hands the extension \<^verbatim>\<open>.json\<close>, with its dot, to a combinator that puts a
  dot of its own: the key that reaches the directory store or the bucket is the outer
  key (after the namespace and the separator, for the bucket) followed by \<^verbatim>\<open>..json\<close>. The
  way back takes the last six characters off, which is the length of \<^verbatim>\<open>..json\<close>, so a key
  comes back from a listing as it went in.
\<close>

theorem json_extension_has_two_dots:
  "addFileExtension ''.json'' k = k @ ''..json''
   \<and> removeFileExtension ''.json'' key = take (length key - 6) key
   \<and> removeFileExtension ''.json'' (addFileExtension ''.json'' k) = k
   \<and> removeNamespace namespace
        (removeFileExtension ''.json'' (addFileExtension ''.json'' (addNamespace namespace k))) = k
   \<and> (storage_type (storage config) = ''local-json''
        \<and> fst (createModelMapStore parse stringify createS3Storage config valueModel keyModel
              namespace w) = Inr store \<longrightarrow>
        store_write store k v w1 =
          on_files (directory_write (join (dir (storage config)) namespace) (k @ ''..json'')
            (default_stringFromValue stringify v)) w1
        \<and> (on_files (directory_list (join (dir (storage config)) namespace)) w1
              = (Inr (Success (map (\<lambda>k. k @ ''..json'') ks)), w2) \<longrightarrow>
            store_list store w1 = (Inr (list_loop keyModel ks []), w2)))
   \<and> (storage_type (storage config) = ''s3-json''
        \<and> fst (createS3Storage (creds (storage config)) (bucketName (storage config)) (bucket w))
              = Inr s3
        \<and> fst (createModelMapStore parse stringify createS3Storage config valueModel keyModel
              namespace w) = Inr store \<longrightarrow>
        store_write store k v w1 =
          on_bucket (store_write s3 (namespace @ ''/'' @ k @ ''..json'')
            (default_stringFromValue stringify v)) w1
        \<and> (on_bucket (store_list s3) w1
              = (Inr (Success (map (\<lambda>k. namespace @ ''/'' @ k @ ''..json'') ks)), w2) \<longrightarrow>
            store_list store w1 = (Inr (list_loop keyModel ks []), w2)))"
proof -
  have strip1: "map (removeFileExtension ''.json'') (map (\<lambda>k. k @ ''..json'') ks) = ks"
    by (simp add: json_extension comp_def)
  have strip2: "map (removeNamespace namespace) (map (removeFileExtension ''.json'')
      (map (\<lambda>k. namespace @ ''/'' @ k @ ''..json'') ks)) = ks"
    by (simp add: json_extension removeNamespace_drop comp_def)
  have l: "store_write store k v w1 =
          on_files (directory_write (join (dir (storage config)) namespace) (k @ ''..json'')
            (default_stringFromValue stringify v)) w1
        \<and> (on_files (directory_list (join (dir (storage config)) namespace)) w1
              = (Inr (Success (map (\<lambda>k. k @ ''..json'') ks)), w2) \<longrightarrow>
            store_list store w1 = (Inr (list_loop keyModel ks []), w2))"
    if "storage_type (storage config) = ''local-json''"
      and "fst (createModelMapStore parse stringify createS3Storage config valueModel keyModel
              namespace w) = Inr store"
    unfolding local_json_assembly[OF that]
    using strip1
    by (simp add: json_write json_list_general transformKeyWithFileExtension_def
        transformKey_write in_world_simps json_extension transformKey_def handleResult_def
        succeed_def del: map_map)
  have s: "store_write store k v w1 =
          on_bucket (store_write s3 (namespace @ ''/'' @ k @ ''..json'')
            (default_stringFromValue stringify v)) w1
        \<and> (on_bucket (store_list s3) w1
              = (Inr (Success (map (\<lambda>k. namespace @ ''/'' @ k @ ''..json'') ks)), w2) \<longrightarrow>
            store_list store w1 = (Inr (list_loop keyModel ks []), w2))"
    if "storage_type (storage config) = ''s3-json''"
      and "fst (createS3Storage (creds (storage config)) (bucketName (storage config)) (bucket w))
              = Inr s3"
      and "fst (createModelMapStore parse stringify createS3Storage config valueModel keyModel
              namespace w) = Inr store"
  proof -
    from s3_json_assembly[where createS3Storage = createS3Storage and config = config
        and w = w and parse = parse and stringify = stringify and valueModel = valueModel
        and keyModel = keyModel and namespace = namespace, OF that(1,2)] that(3)
    have st: "store = createJSONModeledStorage parse
             (transformKeyWithNamespace namespace
                (transformKeyWithFileExtension ''.json''
                   (in_world on_bucket on_bucket on_bucket s3)))
             valueModel keyModel (\<lambda>k. k) (default_stringFromValue stringify)"
      by simp
    show ?thesis
      unfolding st using strip2
      by (simp add: json_write json_list_general transformKeyWithFileExtension_def
          transformKeyWithNamespace_def addNamespace_def
          transformKey_write in_world_simps json_extension transformKey_def handleResult_def
          succeed_def del: map_map)
  qed
  have r: "removeNamespace namespace
        (removeFileExtension ''.json'' (addFileExtension ''.json'' (addNamespace namespace k))) = k"
    by (simp add: removeFileExtension_add removeNamespace_add)
  from l s r show ?thesis
    by (simp only: json_extension removeFileExtension_add[of "''.json''" k, unfolded json_extension])
       blast
qed

theorem json_extension_has_two_dots_witness:
  "storage_type (storage (config_of ''local-json'')) = ''local-json''
   \<and> fst (createModelMapStore parse_literal stringify_literal memory_bucket_storage
        (config_of ''local-json'') boolean_model Success ''chapters'' empty_world)
      = Inr chapters_local
   \<and> store_write chapters_local ''c1'' True
        \<lparr>files = [([''chapters''], Dir)], bucket = [], memory = []\<rparr>
      = (Inr (Success ()),
         \<lparr>files = [([''chapters''], Dir), ([''chapters'', ''c1..json''], File (js ''true''))],
          bucket = [], memory = []\<rparr>)
   \<and> store_list chapters_local
        \<lparr>files = [([''chapters''], Dir), ([''chapters'', ''c1..json''], File (js ''true''))],
         bucket = [], memory = []\<rparr>
      = (Inr (Success [''c1'']),
         \<lparr>files = [([''chapters''], Dir), ([''chapters'', ''c1..json''], File (js ''true''))],
          bucket = [], memory = []\<rparr>)
   \<and> storage_type (storage (config_of ''s3-json'')) = ''s3-json''
   \<and> fst (createModelMapStore parse_literal stringify_literal memory_bucket_storage
        (config_of ''s3-json'') boolean_model Success ''chapters'' empty_world)
      = Inr chapters_s3
   \<and> store_write chapters_s3 ''c1'' True empty_world
      = (Inr (Success ()),
         \<lparr>files = [], bucket = [(''chapters/c1..json'', js ''true'')], memory = []\<rparr>)
   \<and> store_list chapters_s3
        \<lparr>files = [], bucket = [(''chapters/c1..json'', js ''true'')], memory = []\<rparr>
      = (Inr (Success [''c1'']),
         \<lparr>files = [], bucket = [(''chapters/c1..json'', js ''true'')], memory = []\<rparr>)"
proof -
  let ?w1 = "\<lparr>files = [([''chapters''], Dir)], bucket = [], memory = []\<rparr>
    :: (bool, (string, jsstring) map2) world"
  let ?w2 = "\<lparr>files = [([''chapters''], Dir), ([''chapters'', ''c1..json''], File (js ''true''))],
    bucket = [], memory = []\<rparr> :: (bool, (string, jsstring) map2) world"
  let ?w3 = "\<lparr>files = [], bucket = [(''chapters/c1..json'', js ''true'')], memory = []\<rparr>
    :: (bool, (string, jsstring) map2) world"
  have tl: "storage_type (storage (config_of ''local-json'')) = ''local-json''"
    and ts: "storage_type (storage (config_of ''s3-json'')) = ''s3-json''"
    by simp_all
  have "\<not> isl (fst (createDirectoryMapStore (join root_dir ''chapters'') []))"
    by code_simp
  then obtain ds where "fst (createDirectoryMapStore (join root_dir ''chapters'') []) = Inr ds"
    by (cases "fst (createDirectoryMapStore (join root_dir ''chapters'') [])") auto
  then obtain fs1 where d: "createDirectoryMapStore (join root_dir ''chapters'') [] = (Inr ds, fs1)"
    by (cases "createDirectoryMapStore (join root_dir ''chapters'') []") auto
  have cl: "fst (createModelMapStore parse_literal stringify_literal memory_bucket_storage
        (config_of ''local-json'') boolean_model Success ''chapters'' empty_world)
      = Inr chapters_local"
    using d createDirectoryMapStore_store[OF d] by (simp add: createModelMapStore_def)
  have cs: "fst (createModelMapStore parse_literal stringify_literal memory_bucket_storage
        (config_of ''s3-json'') boolean_model Success ''chapters'' empty_world)
      = Inr chapters_s3"
    by (simp add: createModelMapStore_def memory_bucket_storage_def)
  have s3: "fst (memory_bucket_storage (creds (storage (config_of ''s3-json'')))
        (bucketName (storage (config_of ''s3-json''))) (bucket empty_world))
      = Inr createMemoryMapStore"
    by (simp add: memory_bucket_storage_def)
  have e1: "on_files (directory_write (join root_dir ''chapters'') (''c1'' @ ''..json'')
        (default_stringFromValue stringify_literal True)) ?w1 = (Inr (Success ()), ?w2)"
    by code_simp
  have e2: "on_files (directory_list (join root_dir ''chapters'')) ?w2
      = (Inr (Success (map (\<lambda>k. k @ ''..json'') [''c1''])), ?w2)"
    by code_simp
  have e3: "on_bucket (store_write createMemoryMapStore (''chapters'' @ ''/'' @ ''c1'' @ ''..json'')
        (default_stringFromValue stringify_literal True)) empty_world = (Inr (Success ()), ?w3)"
    by code_simp
  have e4: "on_bucket (store_list createMemoryMapStore) ?w3
      = (Inr (Success (map (\<lambda>k. ''chapters'' @ ''/'' @ k @ ''..json'') [''c1''])), ?w3)"
    by code_simp
  have e5: "list_loop Success [''c1''] [] = (Success [''c1''] :: (string list, failure) result)"
    by (simp add: succeed_def)
  from json_extension_has_two_dots[where config = "config_of ''local-json''"
      and parse = parse_literal and stringify = stringify_literal
      and createS3Storage = memory_bucket_storage and valueModel = boolean_model
      and keyModel = Success and namespace = "''chapters''" and w = empty_world
      and store = chapters_local and k = "''c1''" and v = True and ?w1.0 = ?w1]
    tl cl e1
  have a: "store_write chapters_local ''c1'' True ?w1 = (Inr (Success ()), ?w2)"
    by simp
  from json_extension_has_two_dots[where config = "config_of ''local-json''"
      and parse = parse_literal and stringify = stringify_literal
      and createS3Storage = memory_bucket_storage and valueModel = boolean_model
      and keyModel = Success and namespace = "''chapters''" and w = empty_world
      and store = chapters_local and ?w1.0 = ?w2 and ?w2.0 = ?w2 and ks = "[''c1'']"]
    tl cl e2 e5
  have b: "store_list chapters_local ?w2 = (Inr (Success [''c1'']), ?w2)"
    by simp
  from json_extension_has_two_dots[where config = "config_of ''s3-json''"
      and parse = parse_literal and stringify = stringify_literal
      and createS3Storage = memory_bucket_storage and valueModel = boolean_model
      and keyModel = Success and namespace = "''chapters''" and w = empty_world
      and ?s3.0 = createMemoryMapStore
      and store = chapters_s3 and k = "''c1''" and v = True and ?w1.0 = empty_world]
    ts cs s3 e3
  have c: "store_write chapters_s3 ''c1'' True empty_world = (Inr (Success ()), ?w3)"
    by simp
  from json_extension_has_two_dots[where config = "config_of ''s3-json''"
      and parse = parse_literal and stringify = stringify_literal
      and createS3Storage = memory_bucket_storage and valueModel = boolean_model
      and keyModel = Success and namespace = "''chapters''" and w = empty_world
      and ?s3.0 = createMemoryMapStore
      and store = chapters_s3 and ?w1.0 = ?w3 and ?w2.0 = ?w3 and ks = "[''c1'']"]
    ts cs s3 e4 e5
  have d: "store_list chapters_s3 ?w3 = (Inr (Success [''c1'']), ?w3)"
    by simp
  from tl ts cl cs a b c d show ?thesis by simp
qed

end
